theory Spec2Isabelle
  imports Complex_Main
begin

section \<open>JavaScript values\<close>

text \<open>
  The engine computes with JavaScript numbers. A finite number is modelled by a real, and
  the arithmetic of the engine is exact, with one exception: \<open>formatQuantity\<close>, whose
  purpose is the direction of a rounding, rounds every operation to binary64 as the
  source does. Where the source divides by a value that can be zero, the quotient is a
  \<open>jsnum\<close>, which also has the two infinities and NaN; a signed zero is not distinguished
  from zero.
\<close>

type_synonym symbol = string

datatype jsnum = Fin real | PosInf | NegInf | NaN

definition js_div :: "real \<Rightarrow> real \<Rightarrow> jsnum" where
  "js_div a b =
     (if b \<noteq> 0 then Fin (a / b)
      else if a = 0 then NaN
      else if 0 < a then PosInf else NegInf)"

fun js_times :: "jsnum \<Rightarrow> real \<Rightarrow> jsnum" where
  "js_times (Fin x) c = Fin (x * c)"
| "js_times PosInf c = (if 0 < c then PosInf else if c < 0 then NegInf else NaN)"
| "js_times NegInf c = (if 0 < c then NegInf else if c < 0 then PosInf else NaN)"
| "js_times NaN c = NaN"

fun isNaN :: "jsnum \<Rightarrow> bool" where
  "isNaN NaN = True"
| "isNaN _ = False"

fun js_less :: "jsnum \<Rightarrow> jsnum \<Rightarrow> bool" where
  "js_less NaN _ = False"
| "js_less _ NaN = False"
| "js_less (Fin x) (Fin y) = (x < y)"
| "js_less NegInf NegInf = False"
| "js_less NegInf _ = True"
| "js_less _ NegInf = False"
| "js_less PosInf _ = False"
| "js_less _ PosInf = True"

datatype js_error = ReferenceError string | TypeError string | ApiError string

section \<open>Data model of the trading engine\<close>

text \<open>
  The score of a pair is a string; the engine tells apart the five below, and every other
  string takes the paths of \<open>HOLD\<close>.
\<close>

datatype score =
  HOLD | COMPRESSION | PENDING_CONFIRMATION | STRONG_BUY | MOMENTUM_BUY | IGNITION_DETECTED

datatype strategy = PRECISION | MOMENTUM | IGNITION

datatype trading_mode = VIRTUAL | REAL_PAPER | REAL_LIVE

datatype trade_status = FILLED | CLOSED

datatype order_side = BUY | SELL

text \<open>
  The fields of an analysed pair that the engine reads. \<open>atr_15m\<close> and \<open>strategy_type\<close>
  may be undefined in the source (\<open>None\<close> here).
\<close>

record pair =
  pair_symbol :: symbol
  pair_score :: score
  atr_15m :: "real option"
  price :: real
  pair_strategy_type :: "strategy option"

record trade =
  id_trade :: int
  mode :: trading_mode
  symbol :: symbol
  side :: order_side
  entry_price :: real
  average_entry_price :: real
  quantity :: real
  target_quantity :: real
  stop_loss :: real
  take_profit :: real
  entry_time :: real
  status :: trade_status
  pnl :: real
  pnl_pct :: jsnum
  entry_snapshot :: pair
  highest_price_since_entry :: real
  total_cost_usd :: real
  strategy_type :: "strategy option"
  exit_price :: "real option"
  exit_time :: "real option"

record settings =
  MAX_OPEN_POSITIONS :: int
  POSITION_SIZE_PCT :: real
  USE_DYNAMIC_POSITION_SIZING :: bool
  STRONG_BUY_POSITION_SIZE_PCT :: real
  USE_ATR_STOP_LOSS :: bool
  ATR_MULTIPLIER :: real
  STOP_LOSS_PCT :: real
  RISK_REWARD_RATIO :: real
  USE_MTF_VALIDATION :: bool
  USE_IGNITION_TRAILING_STOP :: bool
  IGNITION_TRAILING_STOP_PCT :: real
  LOSS_COOLDOWN_HOURS :: real

text \<open>
  \<open>botState\<close>: the maps are JavaScript \<open>Map\<close>s. A price-cache entry whose price is
  undefined or NaN is \<open>None\<close>. Timestamps are milliseconds.
\<close>

record botState =
  settings :: settings
  balance :: real
  activePositions :: "trade list"
  tradeHistory :: "trade list"
  tradeIdCounter :: int
  isRunning :: bool
  tradingMode :: trading_mode
  recentlyLostSymbols :: "symbol \<rightharpoonup> real"
  pendingConfirmation :: "symbol \<rightharpoonup> (pair \<times> real)"
  priceCache :: "symbol \<rightharpoonup> real"

record order_request =
  order_symbol :: symbol
  order_side :: order_side
  order_quantity :: jsnum

text \<open>
  What \<open>createOrder\<close> resolves to: the prices of \<open>fills\<close> and \<open>executedQty\<close>, both
  already parsed. A rejected promise is \<open>Inl\<close>.
\<close>

record order_result =
  fills :: "real list"
  executedQty :: real

record rules =
  stepSize :: "real option"

text \<open>
  The collaborators the service object holds besides \<open>botState\<close>: the exchange client
  (\<open>None\<close> when it is null) and the lot-size rules per symbol.
\<close>

record engine =
  apiClient :: "(order_request \<Rightarrow> js_error + order_result) option"
  symbolRules :: "symbol \<rightharpoonup> rules"

datatype log_level = TRADE | WARN | ERROR

datatype log_msg =
  MsgPendingStored | MsgConfirmOk | MsgConfirmFailed | MsgSignalConfirmed
| MsgInvalidRisk | MsgOpenAttempt | MsgOrderOk | MsgOpenFailed | MsgOpened
| MsgStopLoss | MsgTakeProfit | MsgIgnitionStop
| MsgCloseAttempt | MsgSellOk | MsgCloseFailed | MsgClosed

text \<open>
  The calls the engine makes to its collaborators, in order: \<open>log\<close>, \<open>createOrder\<close>,
  \<open>saveData('state')\<close> and \<open>broadcast({type: 'POSITIONS_UPDATED'})\<close>.
\<close>

datatype event =
  Log log_level log_msg symbol
| CreateOrder order_request
| SaveData
| Broadcast

section \<open>Quantity formatting\<close>

text \<open>
  Binary64. \<open>roundEven\<close> is the integer nearest to a real, the even one on a tie. \<open>ulp x\<close>
  is the spacing of the doubles in the binade of \<open>x\<close>: \<open>2^(e - 52)\<close> for
  \<open>2^e \<le> |x| < 2^(e + 1)\<close>, and \<open>2^-1074\<close> below \<open>2^-1022\<close>. \<open>fl x\<close> is the multiple of \<open>ulp x\<close>
  nearest to \<open>x\<close>, and \<open>dbl x\<close> the double that an operation with exact result \<open>x\<close> returns:
  an infinity once \<open>fl x\<close> has left the range.
\<close>

definition roundEven :: "real \<Rightarrow> int" where
  "roundEven m =
     (let f = \<lfloor>m\<rfloor>; d = m - of_int f
      in if d < 1 / 2 then f else if 1 / 2 < d then f + 1 else if even f then f else f + 1)"

definition ulp :: "real \<Rightarrow> real" where
  "ulp x = 2 powr of_int (max \<lfloor>log 2 \<bar>x\<bar>\<rfloor> (- 1022) - 52)"

definition fl :: "real \<Rightarrow> real" where
  "fl x = (if x = 0 then 0 else of_int (roundEven (x / ulp x)) * ulp x)"

definition dbl :: "real \<Rightarrow> jsnum" where
  "dbl x =
     (let y = fl x
      in if 2 ^ 1024 \<le> y then PosInf else if y \<le> - (2 ^ 1024) then NegInf else Fin y)"

text \<open>
  \<open>parseFloat(quantity.toFixed(8))\<close>: \<open>toFixed\<close> takes the sign off, returns the number
  itself from \<open>10^21\<close> on, and otherwise picks the integer \<open>n\<close> with \<open>n / 10^8\<close> nearest
  to the number, the larger one on a tie; \<open>parseFloat\<close> returns the double nearest to
  that decimal.
\<close>

definition toFixed8 :: "real \<Rightarrow> real" where
  "toFixed8 x =
     (let a = \<bar>x\<bar>;
          r = (if 10 ^ 21 \<le> a then a else fl (of_int \<lfloor>a * 10 ^ 8 + 1 / 2\<rfloor> / 10 ^ 8))
      in if x < 0 then - r else r)"

text \<open>
  \<open>formatQuantity\<close>. The quantity and the step size are doubles. A step size that is
  undefined, NaN or zero is falsy. The logarithm of a negative step is NaN, and so is
  then the result. \<open>Math.floor\<close> of a double is exact; the product \<open>quantity * factor\<close>
  and the final quotient are rounded. \<open>Math.log10\<close> and \<open>Math.pow\<close>, which ECMAScript
  leaves to the implementation, are taken correctly rounded. The factor is at least 1;
  when it is infinite the product is an infinity or NaN and the quotient NaN, and a
  product that overflows stays infinite through \<open>Math.floor\<close> and the division.
\<close>

definition formatQuantity :: "(symbol \<rightharpoonup> rules) \<Rightarrow> symbol \<Rightarrow> real \<Rightarrow> jsnum" where
  "formatQuantity symRules smb qty =
     (case symRules smb of
        None \<Rightarrow> Fin (toFixed8 qty)
      | Some r \<Rightarrow>
          (case stepSize r of
             None \<Rightarrow> Fin (toFixed8 qty)
           | Some st \<Rightarrow>
               if st = 0 then Fin (toFixed8 qty)
               else if st = 1 then Fin (of_int \<lfloor>qty\<rfloor>)
               else if st < 0 then NaN
               else
                 (let precision = max 0 (- fl (log 10 st))
                  in case dbl (10 powr precision) of
                       Fin factor \<Rightarrow>
                         (case dbl (qty * factor) of
                            Fin scaled \<Rightarrow> dbl (of_int \<lfloor>scaled\<rfloor> / factor)
                          | overflow \<Rightarrow> overflow)
                     | _ \<Rightarrow> NaN)))"

section \<open>Opening a position\<close>

text \<open>
  The asynchronous methods are modelled as run to completion: the answer of the exchange
  is an input, and no other flow runs between the call and its continuation. \<open>now\<close> is
  the clock reading.
\<close>

definition newTrade :: "botState \<Rightarrow> real \<Rightarrow> pair \<Rightarrow> real \<Rightarrow> real \<Rightarrow> real \<Rightarrow> trade" where
  "newTrade s now p qty stopLoss takeProfit =
     \<lparr> id_trade = tradeIdCounter s,
       mode = tradingMode s,
       symbol = pair_symbol p,
       side = BUY,
       entry_price = price p,
       average_entry_price = price p,
       quantity = qty,
       target_quantity = qty,
       stop_loss = stopLoss,
       take_profit = takeProfit,
       entry_time = now,
       status = FILLED,
       pnl = 0,
       pnl_pct = Fin 0,
       entry_snapshot = p,
       highest_price_since_entry = price p,
       total_cost_usd = price p * qty,
       strategy_type = pair_strategy_type p,
       exit_price = None,
       exit_time = None \<rparr>"

text \<open>Lines 139 to 143: debit, append, save, broadcast.\<close>

definition recordOpen :: "botState \<Rightarrow> trade \<Rightarrow> botState \<times> event list" where
  "recordOpen s t =
     (s\<lparr> balance := balance s - entry_price t * quantity t,
         activePositions := activePositions s @ [t] \<rparr>,
      [Log TRADE MsgOpened (symbol t), SaveData, Broadcast])"

definition openPosition ::
  "engine \<Rightarrow> real \<Rightarrow> botState \<Rightarrow> pair \<Rightarrow> real \<Rightarrow> real \<Rightarrow> real \<Rightarrow> botState \<times> event list" where
  "openPosition eng now s p qty stopLoss takeProfit =
     (let t = newTrade s now p qty stopLoss takeProfit;
          s1 = s\<lparr> tradeIdCounter := tradeIdCounter s + 1 \<rparr>
      in case (if tradingMode s = REAL_LIVE then apiClient eng else None) of
           None \<Rightarrow> recordOpen s1 t
         | Some createOrder \<Rightarrow>
             (let orderParams = \<lparr> order_symbol = pair_symbol p, order_side = BUY,
                                  order_quantity = formatQuantity (symbolRules eng) (pair_symbol p) qty \<rparr>;
                  attempt = [Log TRADE MsgOpenAttempt (pair_symbol p), CreateOrder orderParams]
              in case createOrder orderParams of
                   Inl e \<Rightarrow> (s1, attempt @ [Log ERROR MsgOpenFailed (pair_symbol p)])
                 | Inr orderResult \<Rightarrow>
                     (case fills orderResult of
                        [] \<Rightarrow>
                          (s1, attempt @ [Log TRADE MsgOrderOk (pair_symbol p),
                                           Log ERROR MsgOpenFailed (pair_symbol p)])
                      | f # _ \<Rightarrow>
                          (let (s2, evs) =
                                 recordOpen s1 (t\<lparr> entry_price := f,
                                                   quantity := executedQty orderResult \<rparr>)
                           in (s2, attempt @ Log TRADE MsgOrderOk (pair_symbol p) # evs)))))"

section \<open>Evaluating a signal\<close>

text \<open>
  \<open>evaluateSignal\<close>. The quantity is the position size divided by the price. With a zero
  price it is infinite or NaN; when the source then goes on to open a position with it,
  the balance and the trade hold values that are no reals, and the model stops with
  \<open>None\<close>. The four early returns and the risk check come before that.
\<close>

definition evaluateSignal ::
  "engine \<Rightarrow> real \<Rightarrow> botState \<Rightarrow> pair \<Rightarrow> (botState \<times> event list) option" where
  "evaluateSignal eng now s p =
     (let st = settings s; smb = pair_symbol p; sc = pair_score p in
      if sc \<noteq> STRONG_BUY \<and> sc \<noteq> IGNITION_DETECTED \<and> sc \<noteq> MOMENTUM_BUY then Some (s, [])
      else if MAX_OPEN_POSITIONS st \<le> int (length (activePositions s)) then Some (s, [])
      else if list_ex (\<lambda>t. symbol t = smb) (activePositions s) then Some (s, [])
      else if (case recentlyLostSymbols s smb of None \<Rightarrow> False | Some until \<Rightarrow> now < until)
        then Some (s, [])
      else
        (let positionSizePct =
               (if USE_DYNAMIC_POSITION_SIZING st \<and> sc = STRONG_BUY
                then STRONG_BUY_POSITION_SIZE_PCT st else POSITION_SIZE_PCT st);
             positionSizeUSD = balance s * (positionSizePct / 100);
             qty = js_div positionSizeUSD (price p);
             stopLossPrice =
               (case (if USE_ATR_STOP_LOSS st then atr_15m p else None) of
                  None \<Rightarrow> price p * (1 - STOP_LOSS_PCT st / 100)
                | Some atr \<Rightarrow>
                    if atr = 0 then price p * (1 - STOP_LOSS_PCT st / 100)
                    else price p - atr * ATR_MULTIPLIER st);
             riskPerUnit = price p - stopLossPrice
         in if riskPerUnit \<le> 0
            then Some (s, [Log TRADE MsgSignalConfirmed smb, Log WARN MsgInvalidRisk smb])
            else
              (let takeProfitPrice = price p + riskPerUnit * RISK_REWARD_RATIO st
               in case qty of
                    Fin q \<Rightarrow>
                      (let (s', evs) = openPosition eng now s p q stopLossPrice takeProfitPrice
                       in Some (s', Log TRADE MsgSignalConfirmed smb # evs))
                  | _ \<Rightarrow> None)))"

section \<open>Closing a position\<close>

fun findIndex :: "('a \<Rightarrow> bool) \<Rightarrow> 'a list \<Rightarrow> nat option" where
  "findIndex P [] = None"
| "findIndex P (x # xs) = (if P x then Some 0 else map_option Suc (findIndex P xs))"

text \<open>Lines 190 to 196: what closing writes into the trade.\<close>

definition closeTrade :: "real \<Rightarrow> real \<Rightarrow> trade \<Rightarrow> trade" where
  "closeTrade now exitPrice t =
     (let pnlv = (exitPrice - entry_price t) * quantity t
      in t\<lparr> exit_price := Some exitPrice,
            exit_time := Some now,
            status := CLOSED,
            pnl := pnlv,
            pnl_pct := js_times (js_div pnlv (entry_price t * quantity t)) 100 \<rparr>)"

text \<open>
  \<open>closePosition\<close>. The position passed in is used for its id only; the trade that is
  closed is the element of \<open>activePositions\<close> found under that id. A failure of the
  selling order is logged and the close goes on.
\<close>

definition closePosition ::
  "engine \<Rightarrow> real \<Rightarrow> botState \<Rightarrow> trade \<Rightarrow> real \<Rightarrow> botState \<times> event list" where
  "closePosition eng now s position exitPrice =
     (case findIndex (\<lambda>p. id_trade p = id_trade position) (activePositions s) of
        None \<Rightarrow> (s, [])
      | Some positionIndex \<Rightarrow>
          (let spliced = activePositions s ! positionIndex;
               rest = take positionIndex (activePositions s)
                      @ drop (Suc positionIndex) (activePositions s);
               closedTrade = closeTrade now exitPrice spliced;
               smb = symbol closedTrade;
               orderEvents =
                 (case (if tradingMode s = REAL_LIVE then apiClient eng else None) of
                    None \<Rightarrow> []
                  | Some createOrder \<Rightarrow>
                      (let req = \<lparr> order_symbol = smb, order_side = SELL,
                                    order_quantity = formatQuantity (symbolRules eng) smb (quantity closedTrade) \<rparr>
                       in [Log TRADE MsgCloseAttempt smb, CreateOrder req,
                           (case createOrder req of
                              Inl e \<Rightarrow> Log ERROR MsgCloseFailed smb
                            | Inr r \<Rightarrow> Log TRADE MsgSellOk smb)]));
               cooldownUntil = now + LOSS_COOLDOWN_HOURS (settings s) * 60 * 60 * 1000
           in (s\<lparr> activePositions := rest,
                   balance := balance s + (entry_price closedTrade * quantity closedTrade
                                           + pnl closedTrade),
                   tradeHistory := tradeHistory s @ [closedTrade],
                   recentlyLostSymbols :=
                     (if pnl closedTrade < 0
                      then (recentlyLostSymbols s)(smb \<mapsto> cooldownUntil)
                      else recentlyLostSymbols s) \<rparr>,
               orderEvents @ [Log TRADE MsgClosed smb, SaveData, Broadcast])))"

section \<open>Monitoring a position\<close>

text \<open>
  \<open>checkPosition\<close> receives an element of \<open>activePositions\<close> and mutates it in place; the
  model names it by its index \<open>i\<close> and writes the mutated trade back. A price that is
  missing or zero is falsy: the method returns at once.
\<close>

definition trailIgnition :: "settings \<Rightarrow> trade \<Rightarrow> trade" where
  "trailIgnition st position =
     (let trailingStopPct = IGNITION_TRAILING_STOP_PCT st / 100;
          newStopLoss = highest_price_since_entry position * (1 - trailingStopPct)
      in if stop_loss position < newStopLoss then position\<lparr> stop_loss := newStopLoss \<rparr>
         else position)"

text \<open>Lines 155 to 163: what one tick writes into the position itself.\<close>

definition monitor :: "settings \<Rightarrow> real \<Rightarrow> trade \<Rightarrow> trade" where
  "monitor st currentPrice position0 =
     (let position1 = position0\<lparr> highest_price_since_entry :=
                          max (highest_price_since_entry position0) currentPrice \<rparr>
      in if strategy_type position1 = Some IGNITION \<and> USE_IGNITION_TRAILING_STOP st
         then trailIgnition st position1 else position1)"

definition exitDecision :: "settings \<Rightarrow> real \<Rightarrow> trade \<Rightarrow> (log_msg \<times> real) option" where
  "exitDecision st currentPrice position =
     (if strategy_type position = Some IGNITION \<and> USE_IGNITION_TRAILING_STOP st
      then (if currentPrice \<le> stop_loss position
            then Some (MsgIgnitionStop, stop_loss position) else None)
      else if currentPrice \<le> stop_loss position
        then Some (MsgStopLoss, stop_loss position)
      else if take_profit position \<le> currentPrice
        then Some (MsgTakeProfit, take_profit position)
      else None)"

definition checkPosition :: "engine \<Rightarrow> real \<Rightarrow> botState \<Rightarrow> nat \<Rightarrow> botState \<times> event list" where
  "checkPosition eng now s i =
     (if length (activePositions s) \<le> i then (s, [])
      else
        (let position0 = activePositions s ! i in
         case priceCache s (symbol position0) of
           None \<Rightarrow> (s, [])
         | Some currentPrice \<Rightarrow>
             if currentPrice = 0 then (s, [])
             else
               (let position = monitor (settings s) currentPrice position0;
                    s1 = s\<lparr> activePositions := (activePositions s)[i := position] \<rparr>
                in case exitDecision (settings s) currentPrice position of
                     None \<Rightarrow> (s1, [])
                   | Some (exitReason, exitPrice) \<Rightarrow>
                       (let (s2, evs) = closePosition eng now s1 position exitPrice
                        in (s2, Log TRADE exitReason (symbol position) # evs)))))"

text \<open>The ticks of a position's life, each with the settings in force when it arrives.\<close>

fun monitorTicks :: "trade \<Rightarrow> (settings \<times> real) list \<Rightarrow> trade" where
  "monitorTicks t [] = t"
| "monitorTicks t ((st, cp) # ticks) = monitorTicks (monitor st cp t) ticks"

text \<open>
  Ids come from the counter: the open positions have distinct ids, all below it. Opening,
  closing and monitoring keep this.
\<close>

definition idsInOrder :: "botState \<Rightarrow> bool" where
  "idsInOrder s =
     (distinct (map id_trade (activePositions s))
      \<and> list_all (\<lambda>t. id_trade t < tradeIdCounter s) (activePositions s))"

section \<open>The confirmation gate\<close>

text \<open>
  \<open>processAnalyzedPair\<close>: the only place where the engine reads \<open>isRunning\<close> before
  a signal is evaluated.
\<close>

definition processAnalyzedPair ::
  "engine \<Rightarrow> real \<Rightarrow> botState \<Rightarrow> pair \<Rightarrow> (botState \<times> event list) option" where
  "processAnalyzedPair eng now s p =
     (if \<not> isRunning s then Some (s, [])
      else
        (case pair_score p of
           MOMENTUM_BUY \<Rightarrow> evaluateSignal eng now s p
         | IGNITION_DETECTED \<Rightarrow> evaluateSignal eng now s p
         | PENDING_CONFIRMATION \<Rightarrow>
             if USE_MTF_VALIDATION (settings s)
             then Some (s\<lparr> pendingConfirmation :=
                              (pendingConfirmation s)(pair_symbol p \<mapsto> (p, now)) \<rparr>,
                        [Log TRADE MsgPendingStored (pair_symbol p)])
             else evaluateSignal eng now s (p\<lparr> pair_score := STRONG_BUY \<rparr>)
         | _ \<Rightarrow> Some (s, [])))"

text \<open>
  A closed 5-minute candle as the stream delivers it: \<open>parseFloat\<close> of the fields \<open>o\<close> and
  \<open>c\<close>, \<open>None\<close> when the result is NaN.
\<close>

record kline5m =
  kline_o :: "real option"
  kline_c :: "real option"

definition isBullishConfirmation :: "kline5m \<Rightarrow> bool" where
  "isBullishConfirmation k =
     (case (kline_c k, kline_o k) of (Some cv, Some ov) \<Rightarrow> ov < cv | _ \<Rightarrow> False)"

definition checkConfirmationsOn5mClose ::
  "engine \<Rightarrow> real \<Rightarrow> botState \<Rightarrow> symbol \<Rightarrow> kline5m \<Rightarrow> (botState \<times> event list) option" where
  "checkConfirmationsOn5mClose eng now s smb k =
     (case pendingConfirmation s smb of
        None \<Rightarrow> Some (s, [])
      | Some (p, timestamp) \<Rightarrow>
          (let s1 = s\<lparr> pendingConfirmation := (pendingConfirmation s)(smb := None) \<rparr>
           in if isBullishConfirmation k
              then map_option (\<lambda>(s2, evs). (s2, Log TRADE MsgConfirmOk smb # evs))
                     (evaluateSignal eng now s1 (p\<lparr> pair_score := STRONG_BUY \<rparr>))
              else Some (s1, [Log TRADE MsgConfirmFailed smb])))"

section \<open>The realtime analyzer\<close>

record kline =
  k_open :: real
  k_high :: real
  k_low :: real
  k_close :: real
  k_volume :: real

text \<open>One entry of the output of \<open>BollingerBands.calculate\<close>.\<close>

record band =
  upper :: real
  middle :: real
  lower :: real

text \<open>
  The indicator functions come from the package \<open>technicalindicators\<close>, which is not part
  of this repository; they are parameters. \<open>ADX_calculate\<close> stands for the \<open>adx\<close> fields of
  the output of \<open>ADX.calculate\<close>.
\<close>

record indicators =
  EMA_calculate :: "nat \<Rightarrow> real list \<Rightarrow> real list"
  SMA_calculate :: "nat \<Rightarrow> real list \<Rightarrow> real list"
  RSI_calculate :: "nat \<Rightarrow> real list \<Rightarrow> real list"
  OBV_calculate :: "real list \<Rightarrow> real list \<Rightarrow> real list"
  BollingerBands_calculate :: "nat \<Rightarrow> real \<Rightarrow> real list \<Rightarrow> band list"
  ADX_calculate :: "real list \<Rightarrow> real list \<Rightarrow> real list \<Rightarrow> nat \<Rightarrow> real list"
  ATR_calculate :: "real list \<Rightarrow> real list \<Rightarrow> real list \<Rightarrow> nat \<Rightarrow> real list"

text \<open>\<open>xs.pop()\<close> and \<open>xs[xs.length - 1]\<close>: undefined on an empty array.\<close>

definition lastOf :: "'a list \<Rightarrow> 'a option" where
  "lastOf xs = (if xs = [] then None else Some (last xs))"

text \<open>\<open>xs[i]\<close>: undefined out of range.\<close>

definition elemAt :: "'a list \<Rightarrow> nat \<Rightarrow> 'a option" where
  "elemAt xs i = (if i < length xs then Some (xs ! i) else None)"

subsection \<open>Volume flow\<close>

fun calculateCVD :: "kline list \<Rightarrow> real" where
  "calculateCVD [] = 0"
| "calculateCVD (k # ks) =
     (let priceChange = k_close k - k_open k
      in (if 0 < priceChange then k_volume k
          else if priceChange < 0 then - k_volume k else 0) + calculateCVD ks)"

text \<open>\<open>klines.slice(-5)\<close> and \<open>klines.slice(-10, -5)\<close>.\<close>

definition getCvdSlope :: "kline list \<Rightarrow> real" where
  "getCvdSlope klines =
     (if length klines < 10 then 0
      else calculateCVD (drop (length klines - 5) klines)
           - calculateCVD (take 5 (drop (length klines - 10) klines)))"

definition getObvSlope :: "indicators \<Rightarrow> kline list \<Rightarrow> real" where
  "getObvSlope lib klines =
     (if length klines < 2 then 0
      else
        (let obv = OBV_calculate lib (map k_close klines) (map k_volume klines)
         in if length obv < 2 then 0
            else obv ! (length obv - 1) - obv ! (length obv - 2)))"

subsection \<open>Squeeze detection\<close>

text \<open>Line 109: the width of a band as a percentage of its middle.\<close>

definition widthPct :: "band \<Rightarrow> jsnum" where
  "widthPct b = js_times (js_div (upper b - lower b) (middle b)) 100"

definition bbWidths :: "band list \<Rightarrow> jsnum list" where
  "bbWidths bb = filter (\<lambda>v. \<not> isNaN v) (map widthPct bb)"

text \<open>
  \<open>sort((a, b) => a - b)\<close> on numbers that are not NaN: ascending, the infinities at the
  two ends. The difference of two equal infinities is NaN, which the sort takes for 0.
\<close>

fun js_leq :: "jsnum \<Rightarrow> jsnum \<Rightarrow> bool" where
  "js_leq a b = (\<not> js_less b a)"

fun insertAscending :: "jsnum \<Rightarrow> jsnum list \<Rightarrow> jsnum list" where
  "insertAscending a [] = [a]"
| "insertAscending a (b # bs) = (if js_leq a b then a # b # bs else b # insertAscending a bs)"

definition sortAscending :: "jsnum list \<Rightarrow> jsnum list" where
  "sortAscending xs = foldr insertAscending xs []"

text \<open>Line 112: \<open>Math.floor(bbWidths.length * 0.25)\<close> is the length divided by 4, rounded down.\<close>

definition squeezeThreshold :: "band list \<Rightarrow> jsnum option" where
  "squeezeThreshold bb =
     (let ws = sortAscending (bbWidths bb) in elemAt ws (length ws div 4))"

definition lastWidth :: "band list \<Rightarrow> jsnum option" where
  "lastWidth bb = lastOf (bbWidths bb)"

text \<open>Line 114: a comparison with undefined is false.\<close>

definition is_in_squeeze_15m :: "band list \<Rightarrow> bool" where
  "is_in_squeeze_15m bb =
     (case (lastWidth bb, squeezeThreshold bb) of
        (Some w, Some t) \<Rightarrow> js_less w t
      | _ \<Rightarrow> False)"

subsection \<open>Indicators of one timeframe\<close>

text \<open>
  The \<open>result\<close> object of \<open>analyzeTimeframe\<close>; a field that was not assigned, or was
  assigned undefined, is \<open>None\<close>.
\<close>

record analysis =
  r_ema9_1m :: "real option"
  r_volume_avg_1m :: "real option"
  r_obv_1m_slope :: "real option"
  r_cvd_5m_trending_up :: "bool option"
  r_momentum_confirmation_5m :: "bool option"
  r_bollinger_bands_15m :: "(band \<times> jsnum option) option"
  r_is_in_squeeze_15m :: "bool option"
  r_rsi_15m :: "real option"
  r_adx_15m :: "real option"
  r_atr_15m :: "real option"
  r_atr_pct_15m :: "jsnum option"
  r_momentum_impulse_15m :: "bool option"
  r_rsi_1h :: "real option"
  r_price_above_ema50_4h :: "bool option"

definition emptyAnalysis :: analysis where
  "emptyAnalysis =
     \<lparr> r_ema9_1m = None, r_volume_avg_1m = None, r_obv_1m_slope = None,
       r_cvd_5m_trending_up = None, r_momentum_confirmation_5m = None,
       r_bollinger_bands_15m = None, r_is_in_squeeze_15m = None, r_rsi_15m = None,
       r_adx_15m = None, r_atr_15m = None, r_atr_pct_15m = None,
       r_momentum_impulse_15m = None, r_rsi_1h = None, r_price_above_ema50_4h = None \<rparr>"

text \<open>\<open>x > y\<close> where \<open>y\<close> may be undefined: false then.\<close>

definition exceeds :: "real \<Rightarrow> real option \<Rightarrow> bool" where
  "exceeds x y = (case y of None \<Rightarrow> False | Some v \<Rightarrow> v < x)"

text \<open>
  An identifier is looked up in the scope of the function, here the local variables
  that hold arrays, and then on the global object of the host; bound in neither, its
  evaluation throws a ReferenceError.
\<close>

definition lookup ::
  "(string \<times> real list) list \<Rightarrow> (string \<rightharpoonup> real list) \<Rightarrow> string \<Rightarrow> js_error + real list" where
  "lookup scope host name =
     (case map_of scope name of
        Some v \<Rightarrow> Inr v
      | None \<Rightarrow> (case host name of Some v \<Rightarrow> Inr v | None \<Rightarrow> Inl (ReferenceError name)))"

text \<open>Lines 107 to 115 and 120 to 124, which read declared variables only.\<close>

definition analyze15m :: "indicators \<Rightarrow> kline list \<Rightarrow> analysis" where
  "analyze15m lib klines =
     (let closes = map k_close klines;
          volumes = map k_volume klines;
          bb = BollingerBands_calculate lib 20 2 closes;
          lastBB = (case lastOf bb of None \<Rightarrow> \<lparr> upper = 0, middle = 0, lower = 0 \<rparr> | Some b \<Rightarrow> b);
          lastCandle15m = last klines;
          avgVolume15m = lastOf (SMA_calculate lib 20 volumes);
          candleRange = k_high lastCandle15m - k_low lastCandle15m;
          bodySize = \<bar>k_close lastCandle15m - k_open lastCandle15m\<bar>
      in emptyAnalysis
           \<lparr> r_bollinger_bands_15m := Some (lastBB, lastWidth bb),
             r_is_in_squeeze_15m := Some (is_in_squeeze_15m bb),
             r_rsi_15m := lastOf (RSI_calculate lib 14 closes),
             r_momentum_impulse_15m :=
               Some (0 < candleRange \<and> 7 / 10 < bodySize / candleRange
                     \<and> (case avgVolume15m of None \<Rightarrow> False
                         | Some avg \<Rightarrow> avg * 2 < k_volume lastCandle15m)
                     \<and> k_open lastCandle15m < k_close lastCandle15m) \<rparr>)"

text \<open>
  \<open>analyzeTimeframe\<close>. In the case \<open>'15m'\<close>, lines 116 and 117 pass \<open>high\<close> and \<open>low\<close> to
  the indicators; the arrays the function declares are \<open>closes\<close>, \<open>highs\<close>, \<open>lows\<close> and
  \<open>volumes\<close>.
\<close>

definition analyzeTimeframe ::
  "indicators \<Rightarrow> (string \<rightharpoonup> real list) \<Rightarrow> kline list \<Rightarrow> string \<Rightarrow> js_error + analysis" where
  "analyzeTimeframe lib host klines interval =
     (if length klines < 21 then Inr emptyAnalysis
      else
        (let closes = map k_close klines;
             highs = map k_high klines;
             lows = map k_low klines;
             volumes = map k_volume klines;
             scope = [(''closes'', closes), (''highs'', highs), (''lows'', lows),
                      (''volumes'', volumes)]
         in if interval = ''1m'' then
              Inr (emptyAnalysis
                     \<lparr> r_ema9_1m := lastOf (EMA_calculate lib 9 closes),
                       r_volume_avg_1m := lastOf (SMA_calculate lib 20 volumes),
                       r_obv_1m_slope := Some (getObvSlope lib klines) \<rparr>)
            else if interval = ''5m'' then
              (let lastCandle5m = last klines;
                   avgVolume5m = lastOf (SMA_calculate lib 20 volumes)
               in Inr (emptyAnalysis
                         \<lparr> r_cvd_5m_trending_up := Some (0 < getCvdSlope klines),
                           r_momentum_confirmation_5m :=
                             Some (k_open lastCandle5m < k_close lastCandle5m
                                   \<and> exceeds (k_volume lastCandle5m) avgVolume5m) \<rparr>))
            else if interval = ''15m'' then
              (case lookup scope host ''high'' of
                 Inl e \<Rightarrow> Inl e
               | Inr high \<Rightarrow>
                   (case lookup scope host ''low'' of
                      Inl e \<Rightarrow> Inl e
                    | Inr low \<Rightarrow>
                        (let atr = lastOf (ATR_calculate lib high low closes 14)
                         in Inr ((analyze15m lib klines)
                                   \<lparr> r_adx_15m := lastOf (ADX_calculate lib high low closes 14),
                                     r_atr_15m := atr,
                                     r_atr_pct_15m :=
                                       Some (case atr of
                                               None \<Rightarrow> NaN
                                             | Some a \<Rightarrow> js_times (js_div a (last closes)) 100) \<rparr>))))
            else if interval = ''1h'' then
              Inr (emptyAnalysis \<lparr> r_rsi_1h := lastOf (RSI_calculate lib 14 closes) \<rparr>)
            else if interval = ''4h'' then
              Inr (emptyAnalysis
                     \<lparr> r_price_above_ema50_4h :=
                         Some (exceeds (last closes) (lastOf (EMA_calculate lib 50 closes))) \<rparr>)
            else Inr emptyAnalysis))"

subsection \<open>The analysis of a symbol\<close>

text \<open>\<open>try { ... } catch (e) { ...; return null; }\<close> around a step that may throw.\<close>

definition orNull :: "js_error + 'a \<Rightarrow> ('a \<Rightarrow> 'b option) \<Rightarrow> 'b option" where
  "orNull r k = (case r of Inl e \<Rightarrow> None | Inr v \<Rightarrow> k v)"

text \<open>\<open>{ ...a, ...b }\<close> for results of different timeframes.\<close>

definition later :: "'a option \<Rightarrow> 'a option \<Rightarrow> 'a option" where
  "later x y = (case y of None \<Rightarrow> x | Some v \<Rightarrow> Some v)"

definition spread :: "analysis \<Rightarrow> analysis \<Rightarrow> analysis" where
  "spread a b =
     \<lparr> r_ema9_1m = later (r_ema9_1m a) (r_ema9_1m b),
       r_volume_avg_1m = later (r_volume_avg_1m a) (r_volume_avg_1m b),
       r_obv_1m_slope = later (r_obv_1m_slope a) (r_obv_1m_slope b),
       r_cvd_5m_trending_up = later (r_cvd_5m_trending_up a) (r_cvd_5m_trending_up b),
       r_momentum_confirmation_5m =
         later (r_momentum_confirmation_5m a) (r_momentum_confirmation_5m b),
       r_bollinger_bands_15m = later (r_bollinger_bands_15m a) (r_bollinger_bands_15m b),
       r_is_in_squeeze_15m = later (r_is_in_squeeze_15m a) (r_is_in_squeeze_15m b),
       r_rsi_15m = later (r_rsi_15m a) (r_rsi_15m b),
       r_adx_15m = later (r_adx_15m a) (r_adx_15m b),
       r_atr_15m = later (r_atr_15m a) (r_atr_15m b),
       r_atr_pct_15m = later (r_atr_pct_15m a) (r_atr_pct_15m b),
       r_momentum_impulse_15m = later (r_momentum_impulse_15m a) (r_momentum_impulse_15m b),
       r_rsi_1h = later (r_rsi_1h a) (r_rsi_1h b),
       r_price_above_ema50_4h = later (r_price_above_ema50_4h a) (r_price_above_ema50_4h b) \<rparr>"

record baseData =
  base_price :: real
  base_volume :: real

record combined =
  c_symbol :: symbol
  c_price :: real
  c_volume :: real
  c_indicators :: analysis

text \<open>
  \<open>runFullAnalysis\<close>. The candles of each timeframe are what \<open>fetchKlines\<close> resolves to
  (\<open>Inl\<close> when it rejects). \<open>evaluateStrategy\<close>, the continuation after the five
  analyses, is a parameter.
\<close>

definition runFullAnalysis ::
  "(combined \<Rightarrow> analysis \<Rightarrow> analysis \<Rightarrow> kline list \<Rightarrow> kline list \<Rightarrow> 'r) \<Rightarrow> indicators
   \<Rightarrow> (string \<rightharpoonup> real list) \<Rightarrow> symbol \<Rightarrow> baseData \<Rightarrow> (string \<Rightarrow> js_error + kline list)
   \<Rightarrow> 'r option" where
  "runFullAnalysis evaluateStrategy lib host smb base fetchKlines =
     orNull (fetchKlines ''1m'') (\<lambda>klines1m.
     orNull (fetchKlines ''5m'') (\<lambda>klines5m.
     orNull (fetchKlines ''15m'') (\<lambda>klines15m.
     orNull (fetchKlines ''1h'') (\<lambda>klines1h.
     orNull (fetchKlines ''4h'') (\<lambda>klines4h.
       if length klines15m < 50 \<or> length klines1h < 21 \<or> length klines4h < 51
          \<or> length klines1m < 21
       then None
       else
         orNull (analyzeTimeframe lib host klines1m ''1m'') (\<lambda>analysis1m.
         orNull (analyzeTimeframe lib host klines5m ''5m'') (\<lambda>analysis5m.
         orNull (analyzeTimeframe lib host klines15m ''15m'') (\<lambda>analysis15m.
         orNull (analyzeTimeframe lib host klines1h ''1h'') (\<lambda>analysis1h.
         orNull (analyzeTimeframe lib host klines4h ''4h'') (\<lambda>analysis4h.
           Some (evaluateStrategy
                   \<lparr> c_symbol = smb, c_price = base_price base, c_volume = base_volume base,
                     c_indicators = spread (spread analysis15m analysis1h) analysis4h \<rparr>
                   analysis1m analysis5m klines1m klines15m)))))))))))"

definition hydrateSymbol ::
  "indicators \<Rightarrow> (string \<rightharpoonup> real list) \<Rightarrow> 'b \<Rightarrow> (js_error + kline list) \<Rightarrow> ('b \<times> analysis) option" where
  "hydrateSymbol lib host base fetched15m =
     orNull fetched15m (\<lambda>klines15m.
       if length klines15m < 50 then None
       else orNull (analyzeTimeframe lib host klines15m ''15m'') (\<lambda>analysis15m.
              Some (base, analysis15m)))"

section \<open>Failure of the opening order\<close>

text \<open>
  The opening order fails when the engine trades live through a client and \<open>createOrder\<close>
  rejects, or resolves to an answer without fills (reading \<open>fills[0].price\<close> then throws
  inside the same \<open>try\<close>).
\<close>

definition openOrderFails :: "engine \<Rightarrow> botState \<Rightarrow> pair \<Rightarrow> real \<Rightarrow> bool" where
  "openOrderFails eng s p qty =
     (case (if tradingMode s = REAL_LIVE then apiClient eng else None) of
        None \<Rightarrow> False
      | Some createOrder \<Rightarrow>
          (case createOrder \<lparr> order_symbol = pair_symbol p, order_side = BUY,
                               order_quantity = formatQuantity (symbolRules eng) (pair_symbol p) qty \<rparr> of
             Inl e \<Rightarrow> True
           | Inr orderResult \<Rightarrow> fills orderResult = []))"

section \<open>Example inputs\<close>

definition demo_pair :: pair where
  "demo_pair = \<lparr> pair_symbol = ''BTCUSDT'', pair_score = STRONG_BUY, atr_15m = None, price = 100,
                 pair_strategy_type = Some PRECISION \<rparr>"

definition demo_settings :: settings where
  "demo_settings =
     \<lparr> MAX_OPEN_POSITIONS = 5, POSITION_SIZE_PCT = 2, USE_DYNAMIC_POSITION_SIZING = False,
       STRONG_BUY_POSITION_SIZE_PCT = 3, USE_ATR_STOP_LOSS = True, ATR_MULTIPLIER = 3 / 2,
       STOP_LOSS_PCT = 2, RISK_REWARD_RATIO = 4, USE_MTF_VALIDATION = True,
       USE_IGNITION_TRAILING_STOP = True, IGNITION_TRAILING_STOP_PCT = 3 / 2,
       LOSS_COOLDOWN_HOURS = 4 \<rparr>"

definition live_state :: botState where
  "live_state =
     \<lparr> settings = demo_settings, balance = 10000, activePositions = [], tradeHistory = [],
       tradeIdCounter = 1, isRunning = True, tradingMode = REAL_LIVE,
       recentlyLostSymbols = Map.empty, pendingConfirmation = Map.empty,
       priceCache = Map.empty \<rparr>"

definition rejecting :: engine where
  "rejecting = \<lparr> apiClient = Some (\<lambda>r. Inl (ApiError ''insufficient balance'')),
                 symbolRules = Map.empty \<rparr>"

definition filling :: engine where
  "filling = \<lparr> apiClient = Some (\<lambda>r. Inr \<lparr> fills = [101], executedQty = 2 \<rparr>),
               symbolRules = Map.empty \<rparr>"

definition paused_state :: botState where
  "paused_state = live_state\<lparr> isRunning := False \<rparr>"

text \<open>The position that \<open>demo_pair\<close> opens on \<open>live_state\<close> when the order fills at 101.\<close>

definition demo_trade :: trade where
  "demo_trade =
     \<lparr> id_trade = 1, mode = REAL_LIVE, symbol = ''BTCUSDT'', side = BUY,
       entry_price = 101, average_entry_price = 100, quantity = 2, target_quantity = 2,
       stop_loss = 98, take_profit = 108, entry_time = 0, status = FILLED,
       pnl = 0, pnl_pct = Fin 0, entry_snapshot = demo_pair,
       highest_price_since_entry = 100, total_cost_usd = 200,
       strategy_type = Some PRECISION, exit_price = None, exit_time = None \<rparr>"

definition demo_buy :: order_request where
  "demo_buy = \<lparr> order_symbol = ''BTCUSDT'', order_side = BUY, order_quantity = Fin 2 \<rparr>"

definition holding_state :: botState where
  "holding_state = live_state\<lparr> balance := 9798, activePositions := [demo_trade], tradeIdCounter := 2 \<rparr>"

definition pending_state :: botState where
  "pending_state =
     live_state\<lparr> pendingConfirmation :=
                   [''BTCUSDT'' \<mapsto> (demo_pair\<lparr> pair_score := PENDING_CONFIRMATION \<rparr>, 0)] \<rparr>"

text \<open>The bot is paused while the candidate waits for its confirmation.\<close>

definition paused_pending_state :: botState where
  "paused_pending_state = pending_state\<lparr> isRunning := False \<rparr>"

definition bearish :: kline5m where
  "bearish = \<lparr> kline_o = Some 100, kline_c = Some 99 \<rparr>"

definition flat :: kline5m where
  "flat = \<lparr> kline_o = Some 100, kline_c = Some 100 \<rparr>"

definition bullish :: kline5m where
  "bullish = \<lparr> kline_o = Some 100, kline_c = Some 101 \<rparr>"

definition demo_sell :: order_request where
  "demo_sell = \<lparr> order_symbol = ''BTCUSDT'', order_side = SELL, order_quantity = Fin 2 \<rparr>"

text \<open>\<open>demo_trade\<close> closed at 108 at time 5, and the state after that.\<close>

definition demo_closed :: trade where
  "demo_closed = demo_trade\<lparr> exit_price := Some 108, exit_time := Some 5, status := CLOSED,
                             pnl := 14, pnl_pct := Fin (700 / 101) \<rparr>"

definition closed_state :: botState where
  "closed_state = live_state\<lparr> balance := 10014, activePositions := [],
                               tradeHistory := [demo_closed], tradeIdCounter := 2 \<rparr>"

definition virtual_state :: botState where
  "virtual_state = live_state\<lparr> tradingMode := VIRTUAL \<rparr>"

text \<open>The price falls to the stop of \<open>demo_trade\<close>.\<close>

definition stopped_state :: botState where
  "stopped_state = holding_state\<lparr> priceCache := [''BTCUSDT'' \<mapsto> 98] \<rparr>"

text \<open>
  An Ignition position entered at 100 with stop 98: the price rises to 110, then falls
  to 108.35.
\<close>

definition ignition_trade :: trade where
  "ignition_trade = demo_trade\<lparr> strategy_type := Some IGNITION \<rparr>"

definition rising_state :: botState where
  "rising_state = holding_state\<lparr> activePositions := [ignition_trade],
                                  priceCache := [''BTCUSDT'' \<mapsto> 110] \<rparr>"

definition falling_state :: botState where
  "falling_state =
     holding_state\<lparr> activePositions :=
                       [ignition_trade\<lparr> highest_price_since_entry := 110,
                                        stop_loss := 10835 / 100 \<rparr>],
                     priceCache := [''BTCUSDT'' \<mapsto> 10835 / 100] \<rparr>"

text \<open>
  A symbol whose lot step is \<open>parseFloat("0.10000000")\<close>, the double
  \<open>3602879701896397 / 2^55\<close>.
\<close>

definition dime_rules :: "symbol \<rightharpoonup> rules" where
  "dime_rules = [''ATOMUSDT'' \<mapsto> \<lparr> stepSize = Some (3602879701896397 / 2 ^ 55) \<rparr>]"

text \<open>Bands of a flat price, and bands whose last width is the element at the quartile index.\<close>

definition flat_bands :: "band list" where
  "flat_bands = replicate 4 \<lparr> upper = 100, middle = 100, lower = 100 \<rparr>"

definition quartile_bands :: "band list" where
  "quartile_bands =
     [\<lparr> upper = 205 / 2, middle = 100, lower = 195 / 2 \<rparr>,
      \<lparr> upper = 103, middle = 100, lower = 97 \<rparr>,
      \<lparr> upper = 102, middle = 100, lower = 98 \<rparr>,
      \<lparr> upper = 207 / 2, middle = 100, lower = 193 / 2 \<rparr>,
      \<lparr> upper = 409 / 4, middle = 100, lower = 391 / 4 \<rparr>]"

text \<open>Bands whose last width, 3, is below the element at the quartile index, 4.\<close>

definition squeezed_bands :: "band list" where
  "squeezed_bands =
     [\<lparr> upper = 205 / 2, middle = 100, lower = 195 / 2 \<rparr>,
      \<lparr> upper = 103, middle = 100, lower = 97 \<rparr>,
      \<lparr> upper = 102, middle = 100, lower = 98 \<rparr>,
      \<lparr> upper = 207 / 2, middle = 100, lower = 193 / 2 \<rparr>,
      \<lparr> upper = 203 / 2, middle = 100, lower = 197 / 2 \<rparr>]"

definition still_candle :: kline where
  "still_candle = \<lparr> k_open = 100, k_high = 100, k_low = 100, k_close = 100, k_volume = 1 \<rparr>"

definition no_output :: indicators where
  "no_output =
     \<lparr> EMA_calculate = (\<lambda>period values. []), SMA_calculate = (\<lambda>period values. []),
       RSI_calculate = (\<lambda>period values. []), OBV_calculate = (\<lambda>close volume. []),
       BollingerBands_calculate = (\<lambda>period stdDev values. []),
       ADX_calculate = (\<lambda>high low close period. []),
       ATR_calculate = (\<lambda>high low close period. []) \<rparr>"

text \<open>A library whose Bollinger Bands are those of a flat price.\<close>

definition flat_lib :: indicators where
  "flat_lib = no_output\<lparr> BollingerBands_calculate := (\<lambda>period stdDev values. flat_bands) \<rparr>"

text \<open>A host whose global object binds neither \<open>high\<close> nor \<open>low\<close>.\<close>

definition no_globals :: "string \<rightharpoonup> real list" where
  "no_globals = Map.empty"

section \<open>Verified properties\<close>

lemmas demo_defs = demo_pair_def demo_settings_def live_state_def rejecting_def filling_def
  paused_state_def demo_trade_def demo_buy_def holding_state_def
  pending_state_def paused_pending_state_def bearish_def flat_def bullish_def
  demo_sell_def demo_closed_def closed_state_def virtual_state_def stopped_state_def
  ignition_trade_def rising_state_def falling_state_def

subsection \<open>Rounding to binary64\<close>

lemma ulp_eval:
  assumes "2 powr of_int e \<le> \<bar>x\<bar>" "\<bar>x\<bar> < 2 powr of_int (e + 1)" "- 1022 \<le> e"
  shows "ulp x = 2 powr of_int (e - 52)"
proof -
  have "0 < \<bar>x\<bar>" using assms(1) by (smt (verit) powr_gt_zero)
  then have "\<lfloor>log 2 \<bar>x\<bar>\<rfloor> = e"
    using assms(1,2) by (simp add: floor_log_eq_powr_iff)
  then show ?thesis using assms(3) by (simp add: ulp_def max_def)
qed

lemma roundEven_low:
  assumes "of_int n \<le> m" "m < of_int n + 1 / 2"
  shows "roundEven m = n"
proof -
  have "\<lfloor>m\<rfloor> = n" using assms by linarith
  then show ?thesis using assms by (simp add: roundEven_def Let_def)
qed

lemma roundEven_high:
  assumes "of_int n - 1 / 2 < m" "m < of_int n"
  shows "roundEven m = n"
proof -
  have f: "\<lfloor>m\<rfloor> = n - 1" using assms by linarith
  show ?thesis using assms by (simp add: roundEven_def Let_def f)
qed

lemma roundEven_tie_up:
  assumes "m = of_int n - 1 / 2" "even n"
  shows "roundEven m = n"
proof -
  have f: "\<lfloor>m\<rfloor> = n - 1" using assms by linarith
  have d: "m - of_int \<lfloor>m\<rfloor> = 1 / 2" unfolding f using assms(1) by simp
  have o: "odd (n - 1)" using assms(2) by simp
  show ?thesis unfolding roundEven_def Let_def d using o by (simp add: f)
qed

lemma two_powr_neg: "(2::real) powr of_int (- int k) = 1 / 2 ^ k"
  by (simp add: powr_minus powr_realpow inverse_eq_divide)

lemma two_powr_pos: "(2::real) powr of_int (int k) = 2 ^ k"
  by (simp add: powr_realpow)

text \<open>The binade of a number fixes the spacing of the doubles around it.\<close>

lemma ulp_half: "1 / 2 \<le> \<bar>x\<bar> \<Longrightarrow> \<bar>x\<bar> < 1 \<Longrightarrow> ulp x = 1 / 2 ^ 53"
  using ulp_eval [of "- 1" x] two_powr_neg [of 1] two_powr_neg [of 53] by simp

lemma ulp_two: "2 \<le> \<bar>x\<bar> \<Longrightarrow> \<bar>x\<bar> < 4 \<Longrightarrow> ulp x = 1 / 2 ^ 51"
  using ulp_eval [of 1 x] two_powr_pos [of 1] two_powr_pos [of 2] two_powr_neg [of 51] by simp

lemma ulp_eight: "8 \<le> \<bar>x\<bar> \<Longrightarrow> \<bar>x\<bar> < 16 \<Longrightarrow> ulp x = 1 / 2 ^ 49"
  using ulp_eval [of 3 x] two_powr_pos [of 3] two_powr_pos [of 4] two_powr_neg [of 49] by simp

lemma fl_scale:
  assumes "ulp x = 1 / k" "x \<noteq> 0" "roundEven (x * k) = n"
  shows "fl x = of_int n / k"
  using assms by (simp add: fl_def)

lemma fl_half:
  assumes "1 / 2 \<le> \<bar>x\<bar>" "\<bar>x\<bar> < 1" "roundEven (x * 2 ^ 53) = n"
  shows "fl x = of_int n / 2 ^ 53"
proof (rule fl_scale [OF ulp_half [OF assms(1,2)] _ assms(3)])
  show "x \<noteq> 0" using assms(1) by auto
qed

lemma fl_two:
  assumes "2 \<le> \<bar>x\<bar>" "\<bar>x\<bar> < 4" "roundEven (x * 2 ^ 51) = n"
  shows "fl x = of_int n / 2 ^ 51"
proof (rule fl_scale [OF ulp_two [OF assms(1,2)] _ assms(3)])
  show "x \<noteq> 0" using assms(1) by auto
qed

lemma fl_eight:
  assumes "8 \<le> \<bar>x\<bar>" "\<bar>x\<bar> < 16" "roundEven (x * 2 ^ 49) = n"
  shows "fl x = of_int n / 2 ^ 49"
proof (rule fl_scale [OF ulp_eight [OF assms(1,2)] _ assms(3)])
  show "x \<noteq> 0" using assms(1) by auto
qed

lemma dbl_eval: "fl x = y \<Longrightarrow> \<bar>y\<bar> < 2 ^ 1024 \<Longrightarrow> dbl x = Fin y"
  by (auto simp: dbl_def Let_def)

lemma fl_2: "fl 2 = 2"
proof -
  have "roundEven (2 * 2 ^ 51) = 2 ^ 52" by (rule roundEven_low) simp_all
  from fl_two [OF _ _ this] show ?thesis by simp
qed

lemma fl_10: "fl 10 = 10"
proof -
  have "roundEven (10 * 2 ^ 49) = 10 * 2 ^ 49" by (rule roundEven_low) simp_all
  from fl_eight [OF _ _ this] show ?thesis by simp
qed

text \<open>\<open>0.8999999999999999 * 10\<close> lies halfway between two doubles and rounds to the even one, 9.\<close>

lemma fl_scaled: "fl (8106479329266892 / 2 ^ 53 * 10) = 9"
proof -
  have "roundEven (8106479329266892 / 2 ^ 53 * 10 * 2 ^ 49) = 5066549580791808"
    by (rule roundEven_tie_up) simp_all
  from fl_eight [OF _ _ this] show ?thesis by simp
qed

text \<open>\<open>9 / 10\<close> rounds to the double \<open>0.9\<close>, the successor of \<open>0.8999999999999999\<close>.\<close>

lemma fl_quotient: "fl (9 / 10) = 8106479329266893 / 2 ^ 53"
proof -
  have "roundEven (9 / 10 * 2 ^ 53) = 8106479329266893"
    by (rule roundEven_high) simp_all
  from fl_half [OF _ _ this] show ?thesis by simp
qed

lemma ln_10_gt_1: "1 < ln (10::real)"
proof -
  have "exp 1 < (10::real)" using exp_le by (smt (verit))
  then have "ln (exp 1) < ln (10::real)" by (subst ln_less_cancel_iff) simp_all
  then show ?thesis by simp
qed

text \<open>
  The double \<open>0.1\<close> is \<open>(1 + 2^-54) / 10\<close>, so its decimal logarithm is above \<open>-1\<close> by less
  than \<open>2^-54\<close>, a quarter of the spacing of the doubles there.
\<close>

lemma log10_step:
  "- 1 < log 10 (3602879701896397 / 2 ^ 55) \<and> log 10 (3602879701896397 / 2 ^ 55) < - 1 + 1 / 2 ^ 54"
proof -
  define x :: real where "x = 1 / 2 ^ 54"
  have x: "0 < x" by (simp add: x_def)
  have t: "3602879701896397 / 2 ^ 55 = (1 + x) / 10" by (simp add: x_def)
  have "log 10 ((1 + x) / 10) = log 10 (1 + x) - log 10 10"
    using x by (subst log_divide) simp_all
  then have l: "log 10 (3602879701896397 / 2 ^ 55) = log 10 (1 + x) - 1" unfolding t by simp
  have p: "0 < ln (1 + x)" using x by (simp add: ln_gt_zero)
  have "ln (1 + x) \<le> x" using x by (intro ln_add_one_self_le_self) simp
  moreover have "x < x * ln 10" using x ln_10_gt_1 by simp
  ultimately have q: "ln (1 + x) < x * ln 10" by simp
  have a: "0 < log 10 (1 + x)"
    using p ln_10_gt_1 by (simp add: log_def)
  have "ln (1 + x) / ln 10 < x"
    using q ln_10_gt_1 by (simp add: divide_less_eq)
  then have b: "log 10 (1 + x) < x" by (simp add: log_def)
  show ?thesis unfolding l using a b by (simp add: x_def)
qed

lemma fl_log10_step: "fl (log 10 (3602879701896397 / 2 ^ 55)) = - 1"
proof -
  define l :: real where "l = log 10 (3602879701896397 / 2 ^ 55)"
  have b: "- 1 < l" "l < - 1 + 1 / 2 ^ 54" using log10_step by (simp_all add: l_def)
  have "of_int (- (2 ^ 53)) \<le> l * 2 ^ 53" using b(1) by simp
  moreover have "l * 2 ^ 53 < of_int (- (2 ^ 53)) + 1 / 2" using b(2) by simp
  ultimately have r: "roundEven (l * 2 ^ 53) = - (2 ^ 53)" by (rule roundEven_low)
  have "1 / 2 \<le> \<bar>l\<bar>" "\<bar>l\<bar> < 1" using b by simp_all
  from fl_half [OF this r] show ?thesis by (simp add: l_def)
qed

lemma toFixed8_2: "toFixed8 2 = 2"
  by (simp add: toFixed8_def fl_2)

lemma formatQuantity_no_rule_2: "formatQuantity Map.empty smb 2 = Fin 2"
  by (simp add: formatQuantity_def toFixed8_2)

lemmas close_defs = closePosition_def closeTrade_def Let_def js_div_def formatQuantity_no_rule_2

lemmas open_defs = openPosition_def newTrade_def recordOpen_def formatQuantity_no_rule_2

subsection \<open>Opening\<close>

lemma openPosition_failed_state:
  assumes "openOrderFails eng s p qty"
  shows "fst (openPosition eng now s p qty sl tp) = s\<lparr> tradeIdCounter := tradeIdCounter s + 1 \<rparr>"
  using assms
  by (auto simp: openOrderFails_def openPosition_def Let_def
           split: option.splits sum.splits list.splits if_splits)

lemma openPosition_failed_events:
  assumes "openOrderFails eng s p qty"
  shows "Broadcast \<notin> set (snd (openPosition eng now s p qty sl tp))"
    and "SaveData \<notin> set (snd (openPosition eng now s p qty sl tp))"
  using assms
  by (auto simp: openOrderFails_def openPosition_def Let_def
           split: option.splits sum.splits list.splits if_splits)

lemma openPosition_succeeded:
  assumes "\<not> openOrderFails eng s p qty"
  shows "\<exists>t. activePositions (fst (openPosition eng now s p qty sl tp)) = activePositions s @ [t]
           \<and> id_trade t = tradeIdCounter s"
  using assms
  by (auto simp: openOrderFails_def openPosition_def recordOpen_def newTrade_def Let_def
           split: option.splits sum.splits list.splits if_splits)

lemma openPosition_pending:
  "pendingConfirmation (fst (openPosition eng now s p q sl tp)) = pendingConfirmation s"
  by (auto simp: openPosition_def recordOpen_def Let_def
           split: option.splits sum.splits list.splits prod.splits)

lemma rejecting_fails: "openOrderFails rejecting live_state demo_pair 2"
  by (simp add: openOrderFails_def rejecting_def live_state_def)

lemma filling_succeeds:
  "tradingMode s = REAL_LIVE \<Longrightarrow> \<not> openOrderFails filling s p q"
  by (simp add: openOrderFails_def filling_def)

text \<open>
  C4. When the opening order fails, the balance, the active positions and the trade
  history are what they were, and neither \<open>saveData\<close> nor the state-changed broadcast is
  called. Every field of the state other than the id counter is unchanged.
\<close>

theorem openPosition_failure_is_atomic:
  assumes "openOrderFails eng s p qty"
    and "openPosition eng now s p qty stopLoss takeProfit = (s', evs)"
  shows "balance s' = balance s \<and> activePositions s' = activePositions s
         \<and> tradeHistory s' = tradeHistory s
         \<and> Broadcast \<notin> set evs \<and> SaveData \<notin> set evs
         \<and> s'\<lparr> tradeIdCounter := tradeIdCounter s \<rparr> = s"
proof -
  have st: "s' = s\<lparr> tradeIdCounter := tradeIdCounter s + 1 \<rparr>"
    using openPosition_failed_state [OF assms(1), of now stopLoss takeProfit] assms(2) by simp
  have ev: "Broadcast \<notin> set evs" "SaveData \<notin> set evs"
    using openPosition_failed_events [OF assms(1), of now stopLoss takeProfit] assms(2) by simp_all
  show ?thesis using st ev by simp
qed

theorem openPosition_failure_is_atomic_witness:
  "openOrderFails rejecting live_state demo_pair 2
   \<and> balance (fst (openPosition rejecting 0 live_state demo_pair 2 98 108)) = 10000
   \<and> activePositions (fst (openPosition rejecting 0 live_state demo_pair 2 98 108)) = []
   \<and> tradeHistory (fst (openPosition rejecting 0 live_state demo_pair 2 98 108)) = []
   \<and> Broadcast \<notin> set (snd (openPosition rejecting 0 live_state demo_pair 2 98 108))"
  using openPosition_failure_is_atomic [OF rejecting_fails prod.collapse [symmetric],
          where now = 0 and stopLoss = 98 and takeProfit = 108] rejecting_fails
  by (simp add: live_state_def)

text \<open>
  C10. A failed open has nevertheless taken an id: the counter is one higher, while
  balance, active positions and trade history are unchanged; the next open that succeeds
  records a position whose id is the old counter plus one, so the old counter value is
  the id of no position.
\<close>

theorem failed_open_consumes_id:
  assumes "openOrderFails eng s p qty"
    and "openPosition eng now s p qty stopLoss takeProfit = (s', evs)"
  shows "tradeIdCounter s' = tradeIdCounter s + 1
         \<and> balance s' = balance s \<and> activePositions s' = activePositions s
         \<and> tradeHistory s' = tradeHistory s
         \<and> (\<forall>eng2 now2 p2 q2 sl2 tp2. \<not> openOrderFails eng2 s' p2 q2 \<longrightarrow>
               (\<exists>t. activePositions (fst (openPosition eng2 now2 s' p2 q2 sl2 tp2))
                       = activePositions s @ [t]
                     \<and> id_trade t = tradeIdCounter s + 1))"
proof -
  have st: "s' = s\<lparr> tradeIdCounter := tradeIdCounter s + 1 \<rparr>"
    using openPosition_failed_state [OF assms(1), of now stopLoss takeProfit] assms(2) by simp
  have "\<exists>t. activePositions (fst (openPosition eng2 now2 s' p2 q2 sl2 tp2))
               = activePositions s @ [t] \<and> id_trade t = tradeIdCounter s + 1"
    if "\<not> openOrderFails eng2 s' p2 q2" for eng2 now2 p2 q2 sl2 tp2
    using openPosition_succeeded [OF that, of now2 sl2 tp2] st by simp
  then show ?thesis using st by simp
qed

theorem failed_open_consumes_id_witness:
  "openOrderFails rejecting live_state demo_pair 2
   \<and> tradeIdCounter (fst (openPosition rejecting 0 live_state demo_pair 2 98 108)) = 2
   \<and> map id_trade (activePositions (fst (openPosition filling 1
          (fst (openPosition rejecting 0 live_state demo_pair 2 98 108)) demo_pair 2 98 108))) = [2]"
proof -
  let ?s' = "fst (openPosition rejecting 0 live_state demo_pair 2 98 108)"
  note th = failed_open_consumes_id [OF rejecting_fails prod.collapse [symmetric],
          where now = 0 and stopLoss = 98 and takeProfit = 108]
  have live: "tradingMode ?s' = REAL_LIVE"
    using openPosition_failed_state [OF rejecting_fails, of 0 98 108] by (simp add: live_state_def)
  have c: "tradeIdCounter ?s' = 2" using th by (simp add: live_state_def)
  obtain t where "activePositions (fst (openPosition filling 1 ?s' demo_pair 2 98 108))
                    = activePositions live_state @ [t]"
             and "id_trade t = tradeIdCounter live_state + 1"
    using th filling_succeeds [OF live] by (metis prod.collapse)
  then have "map id_trade (activePositions (fst (openPosition filling 1 ?s' demo_pair 2 98 108))) = [2]"
    by (simp add: live_state_def)
  with c rejecting_fails show ?thesis by simp
qed

subsection \<open>The gates of evaluateSignal\<close>

lemma evaluateSignal_rejects:
  assumes "MAX_OPEN_POSITIONS (settings s) \<le> int (length (activePositions s))
           \<or> (\<exists>t \<in> set (activePositions s). symbol t = pair_symbol p)
           \<or> (\<exists>until. recentlyLostSymbols s (pair_symbol p) = Some until \<and> now < until)"
  shows "evaluateSignal eng now s p = Some (s, [])"
  using assms by (auto simp: evaluateSignal_def Let_def list_ex_iff)

lemma evaluateSignal_returns:
  "price p \<noteq> 0 \<Longrightarrow> \<exists>r. evaluateSignal eng now s p = Some r"
  by (auto simp: evaluateSignal_def Let_def js_div_def split: prod.splits)

lemma evaluateSignal_cases:
  assumes "evaluateSignal eng now s p = Some (s', evs)"
  shows "s' = s \<or> (\<exists>q sl tp. s' = fst (openPosition eng now s p q sl tp))"
proof -
  have fstI: "\<And>q sl tp x. openPosition eng now s p q sl tp = (s', x)
                \<Longrightarrow> \<exists>q sl tp. s' = fst (openPosition eng now s p q sl tp)"
    by (metis fst_conv)
  show ?thesis
    using assms unfolding evaluateSignal_def Let_def
    by (auto split: if_splits jsnum.splits prod.splits dest: fstI)
qed

lemma evaluateSignal_pending:
  assumes "evaluateSignal eng now s p = Some (s', evs)"
  shows "pendingConfirmation s' = pendingConfirmation s"
  using evaluateSignal_cases [OF assms] openPosition_pending by auto

text \<open>
  C3. \<open>evaluateSignal\<close> never reads \<open>isRunning\<close>: the pause is tested by
  \<open>processAnalyzedPair\<close> and \<open>checkAllPositions\<close> only. \<open>checkConfirmationsOn5mClose\<close> and
  the score update of the server call \<open>evaluateSignal\<close> without that test. On a paused
  bot with no open position a STRONG BUY signal is not rejected: the order is placed, the
  balance debited and the position recorded, both when \<open>evaluateSignal\<close> is called with
  the signal and when a candidate that was pending at the pause is confirmed by a
  bullish 5-minute candle. The three other gates reject as the claim says
  (\<open>evaluateSignal_rejects\<close>).
\<close>

theorem evaluateSignal_ignores_pause:
  "\<not> isRunning paused_state
   \<and> evaluateSignal filling 0 paused_state demo_pair =
       Some (paused_state\<lparr> balance := 9798, activePositions := [demo_trade],
                            tradeIdCounter := 2 \<rparr>,
             [Log TRADE MsgSignalConfirmed ''BTCUSDT'', Log TRADE MsgOpenAttempt ''BTCUSDT'',
              CreateOrder demo_buy, Log TRADE MsgOrderOk ''BTCUSDT'',
              Log TRADE MsgOpened ''BTCUSDT'', SaveData, Broadcast])
   \<and> \<not> isRunning paused_pending_state
   \<and> pendingConfirmation paused_pending_state ''BTCUSDT''
       = Some (demo_pair\<lparr> pair_score := PENDING_CONFIRMATION \<rparr>, 0)
   \<and> checkConfirmationsOn5mClose filling 0 paused_pending_state ''BTCUSDT'' bullish =
       Some (paused_pending_state\<lparr> pendingConfirmation :=
                                      (pendingConfirmation paused_pending_state)(''BTCUSDT'' := None),
                                    balance := 9798, activePositions := [demo_trade],
                                    tradeIdCounter := 2 \<rparr>,
             [Log TRADE MsgConfirmOk ''BTCUSDT'',
              Log TRADE MsgSignalConfirmed ''BTCUSDT'', Log TRADE MsgOpenAttempt ''BTCUSDT'',
              CreateOrder demo_buy, Log TRADE MsgOrderOk ''BTCUSDT'',
              Log TRADE MsgOpened ''BTCUSDT'', SaveData, Broadcast])"
proof (intro conjI)
  show "\<not> isRunning paused_state"
    by (simp add: paused_state_def)
  show "evaluateSignal filling 0 paused_state demo_pair =
       Some (paused_state\<lparr> balance := 9798, activePositions := [demo_trade],
                            tradeIdCounter := 2 \<rparr>,
             [Log TRADE MsgSignalConfirmed ''BTCUSDT'', Log TRADE MsgOpenAttempt ''BTCUSDT'',
              CreateOrder demo_buy, Log TRADE MsgOrderOk ''BTCUSDT'',
              Log TRADE MsgOpened ''BTCUSDT'', SaveData, Broadcast])"
    by (simp add: demo_defs evaluateSignal_def Let_def js_div_def open_defs)
  show "\<not> isRunning paused_pending_state"
    by (simp add: paused_pending_state_def)
  show p: "pendingConfirmation paused_pending_state ''BTCUSDT''
       = Some (demo_pair\<lparr> pair_score := PENDING_CONFIRMATION \<rparr>, 0)"
    by (simp add: paused_pending_state_def pending_state_def)
  have k: "isBullishConfirmation bullish"
    by (simp add: isBullishConfirmation_def bullish_def)
  have e: "evaluateSignal filling 0
             (paused_pending_state\<lparr> pendingConfirmation :=
                 (pendingConfirmation paused_pending_state)(''BTCUSDT'' := None) \<rparr>)
             (demo_pair\<lparr> pair_score := PENDING_CONFIRMATION, pair_score := STRONG_BUY \<rparr>)
           = Some (paused_pending_state\<lparr> pendingConfirmation :=
                                      (pendingConfirmation paused_pending_state)(''BTCUSDT'' := None),
                                    balance := 9798, activePositions := [demo_trade],
                                    tradeIdCounter := 2 \<rparr>,
             [Log TRADE MsgSignalConfirmed ''BTCUSDT'', Log TRADE MsgOpenAttempt ''BTCUSDT'',
              CreateOrder demo_buy, Log TRADE MsgOrderOk ''BTCUSDT'',
              Log TRADE MsgOpened ''BTCUSDT'', SaveData, Broadcast])"
    by (simp add: demo_defs evaluateSignal_def Let_def js_div_def open_defs)
  show "checkConfirmationsOn5mClose filling 0 paused_pending_state ''BTCUSDT'' bullish =
       Some (paused_pending_state\<lparr> pendingConfirmation :=
                                      (pendingConfirmation paused_pending_state)(''BTCUSDT'' := None),
                                    balance := 9798, activePositions := [demo_trade],
                                    tradeIdCounter := 2 \<rparr>,
             [Log TRADE MsgConfirmOk ''BTCUSDT'',
              Log TRADE MsgSignalConfirmed ''BTCUSDT'', Log TRADE MsgOpenAttempt ''BTCUSDT'',
              CreateOrder demo_buy, Log TRADE MsgOrderOk ''BTCUSDT'',
              Log TRADE MsgOpened ''BTCUSDT'', SaveData, Broadcast])"
    unfolding checkConfirmationsOn5mClose_def p Let_def
    by (simp only: option.case prod.case k if_True e option.map)
qed

subsection \<open>The confirmation gate\<close>

lemma isBullish_iff:
  "isBullishConfirmation k \<longleftrightarrow> (\<exists>cv ov. kline_c k = Some cv \<and> kline_o k = Some ov \<and> ov < cv)"
  by (auto simp: isBullishConfirmation_def split: option.splits)

text \<open>
  C7. When the symbol is not pending, the resolution changes nothing and calls nothing.
  When it is pending with candidate \<open>p\<close>: a candle that is not bullish leaves the state
  with the entry removed and one log line; a bullish candle hands the candidate, with
  score STRONG BUY, to \<open>evaluateSignal\<close> on the state with the entry removed; whatever the
  outcome, the entry of the symbol is gone and the other entries are as before; and the
  resolution returns whenever the candidate's price is not zero. Bullish means that the
  close is strictly above the open.
\<close>

theorem confirmation_resolution:
  "(pendingConfirmation s smb = None \<longrightarrow>
      checkConfirmationsOn5mClose eng now s smb k = Some (s, []))
   \<and> (\<forall>p ts. pendingConfirmation s smb = Some (p, ts) \<longrightarrow>
        (\<not> isBullishConfirmation k \<longrightarrow>
           checkConfirmationsOn5mClose eng now s smb k =
             Some (s\<lparr> pendingConfirmation := (pendingConfirmation s)(smb := None) \<rparr>,
                   [Log TRADE MsgConfirmFailed smb]))
      \<and> (isBullishConfirmation k \<longrightarrow>
           checkConfirmationsOn5mClose eng now s smb k =
             map_option (\<lambda>(s2, evs). (s2, Log TRADE MsgConfirmOk smb # evs))
               (evaluateSignal eng now
                  (s\<lparr> pendingConfirmation := (pendingConfirmation s)(smb := None) \<rparr>)
                  (p\<lparr> pair_score := STRONG_BUY \<rparr>)))
      \<and> (\<forall>s' evs. checkConfirmationsOn5mClose eng now s smb k = Some (s', evs) \<longrightarrow>
             pendingConfirmation s' = (pendingConfirmation s)(smb := None))
      \<and> (price p \<noteq> 0 \<longrightarrow> checkConfirmationsOn5mClose eng now s smb k \<noteq> None))
   \<and> (isBullishConfirmation k \<longleftrightarrow>
        (\<exists>cv ov. kline_c k = Some cv \<and> kline_o k = Some ov \<and> ov < cv))"
proof (intro conjI allI impI)
  assume "pendingConfirmation s smb = None"
  then show "checkConfirmationsOn5mClose eng now s smb k = Some (s, [])"
    by (simp add: checkConfirmationsOn5mClose_def)
next
  fix p ts assume "pendingConfirmation s smb = Some (p, ts)" "\<not> isBullishConfirmation k"
  then show "checkConfirmationsOn5mClose eng now s smb k =
             Some (s\<lparr> pendingConfirmation := (pendingConfirmation s)(smb := None) \<rparr>,
                   [Log TRADE MsgConfirmFailed smb])"
    by (simp add: checkConfirmationsOn5mClose_def)
next
  fix p ts assume "pendingConfirmation s smb = Some (p, ts)" "isBullishConfirmation k"
  then show "checkConfirmationsOn5mClose eng now s smb k =
             map_option (\<lambda>(s2, evs). (s2, Log TRADE MsgConfirmOk smb # evs))
               (evaluateSignal eng now
                  (s\<lparr> pendingConfirmation := (pendingConfirmation s)(smb := None) \<rparr>)
                  (p\<lparr> pair_score := STRONG_BUY \<rparr>))"
    by (simp add: checkConfirmationsOn5mClose_def)
next
  fix p ts s' evs
  assume a: "pendingConfirmation s smb = Some (p, ts)"
    and r: "checkConfirmationsOn5mClose eng now s smb k = Some (s', evs)"
  show "pendingConfirmation s' = (pendingConfirmation s)(smb := None)"
  proof (cases "isBullishConfirmation k")
    case False
    with a r show ?thesis by (auto simp: checkConfirmationsOn5mClose_def)
  next
    case True
    with a r obtain evs2 where
      "evaluateSignal eng now (s\<lparr> pendingConfirmation := (pendingConfirmation s)(smb := None) \<rparr>)
         (p\<lparr> pair_score := STRONG_BUY \<rparr>) = Some (s', evs2)"
      by (auto simp: checkConfirmationsOn5mClose_def)
    from evaluateSignal_pending [OF this] show ?thesis by simp
  qed
next
  fix p ts assume a: "pendingConfirmation s smb = Some (p, ts)" and "price p \<noteq> 0"
  then have "price (p\<lparr> pair_score := STRONG_BUY \<rparr>) \<noteq> 0" by simp
  from evaluateSignal_returns [OF this] a
  show "checkConfirmationsOn5mClose eng now s smb k \<noteq> None"
    by (auto simp: checkConfirmationsOn5mClose_def Let_def)
next
  show "isBullishConfirmation k \<longleftrightarrow>
        (\<exists>cv ov. kline_c k = Some cv \<and> kline_o k = Some ov \<and> ov < cv)"
    by (rule isBullish_iff)
qed

theorem confirmation_resolution_witness:
  "pendingConfirmation live_state ''BTCUSDT'' = None
   \<and> checkConfirmationsOn5mClose filling 0 live_state ''BTCUSDT'' bullish = Some (live_state, [])
   \<and> pendingConfirmation pending_state ''BTCUSDT''
       = Some (demo_pair\<lparr> pair_score := PENDING_CONFIRMATION \<rparr>, 0)
   \<and> \<not> isBullishConfirmation bearish \<and> \<not> isBullishConfirmation flat
   \<and> isBullishConfirmation bullish
   \<and> checkConfirmationsOn5mClose filling 0 pending_state ''BTCUSDT'' bearish =
       Some (pending_state\<lparr> pendingConfirmation :=
                               (pendingConfirmation pending_state)(''BTCUSDT'' := None) \<rparr>,
             [Log TRADE MsgConfirmFailed ''BTCUSDT''])
   \<and> checkConfirmationsOn5mClose filling 0 pending_state ''BTCUSDT'' flat =
       Some (pending_state\<lparr> pendingConfirmation :=
                               (pendingConfirmation pending_state)(''BTCUSDT'' := None) \<rparr>,
             [Log TRADE MsgConfirmFailed ''BTCUSDT''])
   \<and> checkConfirmationsOn5mClose filling 0 pending_state ''BTCUSDT'' bullish =
       Some (pending_state\<lparr> pendingConfirmation :=
                               (pendingConfirmation pending_state)(''BTCUSDT'' := None),
                             balance := 9798, activePositions := [demo_trade],
                             tradeIdCounter := 2 \<rparr>,
             [Log TRADE MsgConfirmOk ''BTCUSDT'',
              Log TRADE MsgSignalConfirmed ''BTCUSDT'', Log TRADE MsgOpenAttempt ''BTCUSDT'',
              CreateOrder demo_buy, Log TRADE MsgOrderOk ''BTCUSDT'',
              Log TRADE MsgOpened ''BTCUSDT'', SaveData, Broadcast])"
proof -
  have n: "pendingConfirmation live_state ''BTCUSDT'' = None"
    by (simp add: live_state_def)
  have p: "pendingConfirmation pending_state ''BTCUSDT''
             = Some (demo_pair\<lparr> pair_score := PENDING_CONFIRMATION \<rparr>, 0)"
    by (simp add: pending_state_def live_state_def)
  have k: "\<not> isBullishConfirmation bearish" "\<not> isBullishConfirmation flat"
          "isBullishConfirmation bullish"
    by (simp_all add: isBullishConfirmation_def bearish_def flat_def bullish_def)
  have e: "evaluateSignal filling 0
             (pending_state\<lparr> pendingConfirmation :=
                               (pendingConfirmation pending_state)(''BTCUSDT'' := None) \<rparr>)
             (demo_pair\<lparr> pair_score := PENDING_CONFIRMATION, pair_score := STRONG_BUY \<rparr>)
           = Some (pending_state\<lparr> pendingConfirmation :=
                               (pendingConfirmation pending_state)(''BTCUSDT'' := None),
                             balance := 9798, activePositions := [demo_trade],
                             tradeIdCounter := 2 \<rparr>,
             [Log TRADE MsgSignalConfirmed ''BTCUSDT'', Log TRADE MsgOpenAttempt ''BTCUSDT'',
              CreateOrder demo_buy, Log TRADE MsgOrderOk ''BTCUSDT'',
              Log TRADE MsgOpened ''BTCUSDT'', SaveData, Broadcast])"
    by (simp add: demo_defs evaluateSignal_def Let_def js_div_def open_defs)
  have r1: "checkConfirmationsOn5mClose filling 0 live_state ''BTCUSDT'' bullish = Some (live_state, [])"
    using confirmation_resolution [of live_state "''BTCUSDT''" filling 0 bullish] n by blast
  note b = confirmation_resolution [of pending_state "''BTCUSDT''" filling 0 bearish,
             THEN conjunct2, THEN conjunct1, rule_format, OF p]
  note f = confirmation_resolution [of pending_state "''BTCUSDT''" filling 0 flat,
             THEN conjunct2, THEN conjunct1, rule_format, OF p]
  note u = confirmation_resolution [of pending_state "''BTCUSDT''" filling 0 bullish,
             THEN conjunct2, THEN conjunct1, rule_format, OF p]
  have r2: "checkConfirmationsOn5mClose filling 0 pending_state ''BTCUSDT'' bearish =
       Some (pending_state\<lparr> pendingConfirmation :=
                               (pendingConfirmation pending_state)(''BTCUSDT'' := None) \<rparr>,
             [Log TRADE MsgConfirmFailed ''BTCUSDT''])"
    using b k(1) by blast
  have r3: "checkConfirmationsOn5mClose filling 0 pending_state ''BTCUSDT'' flat =
       Some (pending_state\<lparr> pendingConfirmation :=
                               (pendingConfirmation pending_state)(''BTCUSDT'' := None) \<rparr>,
             [Log TRADE MsgConfirmFailed ''BTCUSDT''])"
    using f k(2) by blast
  have "checkConfirmationsOn5mClose filling 0 pending_state ''BTCUSDT'' bullish =
         map_option (\<lambda>(s2, evs). (s2, Log TRADE MsgConfirmOk ''BTCUSDT'' # evs))
           (evaluateSignal filling 0
              (pending_state\<lparr> pendingConfirmation :=
                               (pendingConfirmation pending_state)(''BTCUSDT'' := None) \<rparr>)
              (demo_pair\<lparr> pair_score := PENDING_CONFIRMATION, pair_score := STRONG_BUY \<rparr>))"
    using u k(3) by blast
  then have r4: "checkConfirmationsOn5mClose filling 0 pending_state ''BTCUSDT'' bullish =
       Some (pending_state\<lparr> pendingConfirmation :=
                               (pendingConfirmation pending_state)(''BTCUSDT'' := None),
                             balance := 9798, activePositions := [demo_trade],
                             tradeIdCounter := 2 \<rparr>,
             [Log TRADE MsgConfirmOk ''BTCUSDT'',
              Log TRADE MsgSignalConfirmed ''BTCUSDT'', Log TRADE MsgOpenAttempt ''BTCUSDT'',
              CreateOrder demo_buy, Log TRADE MsgOrderOk ''BTCUSDT'',
              Log TRADE MsgOpened ''BTCUSDT'', SaveData, Broadcast])"
    unfolding e by simp
  from n r1 p k r2 r3 r4 show ?thesis by (intro conjI)
qed

subsection \<open>Closing\<close>

lemma findIndex_Some:
  "findIndex P xs = Some i \<Longrightarrow> i < length xs \<and> P (xs ! i)"
  by (induction xs arbitrary: i) (auto split: if_splits)

lemma findIndex_distinct:
  "distinct (map f xs) \<Longrightarrow> i < length xs \<Longrightarrow> findIndex (\<lambda>p. f p = f (xs ! i)) xs = Some i"
proof (induction xs arbitrary: i)
  case Nil
  then show ?case by simp
next
  case (Cons x xs)
  show ?case
  proof (cases i)
    case 0
    then show ?thesis by simp
  next
    case (Suc j)
    with Cons.prems have "f x \<noteq> f (xs ! j)" by auto
    with Suc Cons show ?thesis by simp
  qed
qed

lemma closePosition_found:
  assumes "findIndex (\<lambda>p. id_trade p = id_trade position) (activePositions s) = Some i"
  shows "fst (closePosition eng now s position exitPrice) =
           s\<lparr> activePositions := take i (activePositions s) @ drop (Suc i) (activePositions s),
              balance := balance s + (entry_price (activePositions s ! i) * quantity (activePositions s ! i)
                           + (exitPrice - entry_price (activePositions s ! i)) * quantity (activePositions s ! i)),
              tradeHistory := tradeHistory s @ [closeTrade now exitPrice (activePositions s ! i)],
              recentlyLostSymbols :=
                (if (exitPrice - entry_price (activePositions s ! i)) * quantity (activePositions s ! i) < 0
                 then (recentlyLostSymbols s)(symbol (activePositions s ! i) \<mapsto>
                        now + LOSS_COOLDOWN_HOURS (settings s) * 60 * 60 * 1000)
                 else recentlyLostSymbols s) \<rparr>"
  using assms by (simp add: closePosition_def Let_def closeTrade_def)

lemma closeTrade_fields:
  "status (closeTrade now x t) = CLOSED"
  "exit_price (closeTrade now x t) = Some x"
  "exit_time (closeTrade now x t) = Some now"
  "pnl (closeTrade now x t) = (x - entry_price t) * quantity t"
  "pnl_pct (closeTrade now x t) = js_times (js_div ((x - entry_price t) * quantity t) (entry_price t * quantity t)) 100"
  "entry_price (closeTrade now x t) = entry_price t"
  "average_entry_price (closeTrade now x t) = average_entry_price t"
  "quantity (closeTrade now x t) = quantity t"
  "total_cost_usd (closeTrade now x t) = total_cost_usd t"
  "id_trade (closeTrade now x t) = id_trade t"
  "symbol (closeTrade now x t) = symbol t"
  "stop_loss (closeTrade now x t) = stop_loss t"
  by (simp_all add: closeTrade_def Let_def)

lemma pct_finite:
  "d \<noteq> 0 \<Longrightarrow> js_times (js_div a d) 100 = Fin (a / d * 100)"
  by (simp add: js_div_def)

lemma closePosition_settles:
  assumes "findIndex (\<lambda>p. id_trade p = id_trade position) (activePositions s) = Some i"
    and "closePosition eng now s position exitPrice = (s', evs)"
  shows "\<exists>t. tradeHistory s' = tradeHistory s @ [t]
           \<and> t = closeTrade now exitPrice (activePositions s ! i)
           \<and> status t = CLOSED \<and> exit_price t = Some exitPrice
           \<and> pnl t = (exitPrice - entry_price t) * quantity t
           \<and> (entry_price t * quantity t \<noteq> 0 \<longrightarrow>
                pnl_pct t = Fin (pnl t / (entry_price t * quantity t) * 100))
           \<and> (average_entry_price t = entry_price t \<longrightarrow>
                pnl t = (exitPrice - average_entry_price t) * quantity t)
           \<and> (total_cost_usd t = entry_price t * quantity t \<and> total_cost_usd t \<noteq> 0 \<longrightarrow>
                pnl_pct t = Fin (pnl t / total_cost_usd t * 100))"
proof -
  let ?t = "closeTrade now exitPrice (activePositions s ! i)"
  have h: "tradeHistory s' = tradeHistory s @ [?t]"
    using closePosition_found [OF assms(1), of eng now exitPrice] assms(2) by simp
  have p: "pnl ?t = (exitPrice - entry_price ?t) * quantity ?t"
    by (simp only: closeTrade_fields)
  have q: "pnl_pct ?t = js_times (js_div (pnl ?t) (entry_price ?t * quantity ?t)) 100"
    by (simp only: closeTrade_fields)
  have a: "pnl_pct ?t = Fin (pnl ?t / (entry_price ?t * quantity ?t) * 100)"
    if "entry_price ?t * quantity ?t \<noteq> 0"
    using pct_finite [OF that] q by simp
  have b: "pnl ?t = (exitPrice - average_entry_price ?t) * quantity ?t"
    if "average_entry_price ?t = entry_price ?t"
    using p that by simp
  have c: "pnl_pct ?t = Fin (pnl ?t / total_cost_usd ?t * 100)"
    if t: "total_cost_usd ?t = entry_price ?t * quantity ?t \<and> total_cost_usd ?t \<noteq> 0"
  proof -
    from t have "entry_price ?t * quantity ?t \<noteq> 0" by metis
    from a [OF this] show ?thesis using t by metis
  qed
  show ?thesis
  proof (intro exI [of _ ?t] conjI)
    show "tradeHistory s' = tradeHistory s @ [?t]" by (rule h)
    show "?t = closeTrade now exitPrice (activePositions s ! i)" by (rule refl)
    show "status ?t = CLOSED" by (rule closeTrade_fields)
    show "exit_price ?t = Some exitPrice" by (rule closeTrade_fields)
    show "pnl ?t = (exitPrice - entry_price ?t) * quantity ?t" by (rule p)
    show "entry_price ?t * quantity ?t \<noteq> 0 \<longrightarrow>
            pnl_pct ?t = Fin (pnl ?t / (entry_price ?t * quantity ?t) * 100)"
      using a by blast
    show "average_entry_price ?t = entry_price ?t \<longrightarrow>
            pnl ?t = (exitPrice - average_entry_price ?t) * quantity ?t"
      using b by blast
    show "total_cost_usd ?t = entry_price ?t * quantity ?t \<and> total_cost_usd ?t \<noteq> 0 \<longrightarrow>
            pnl_pct ?t = Fin (pnl ?t / total_cost_usd ?t * 100)"
      using c by blast
  qed
qed

lemma openPosition_virtual:
  assumes "tradingMode s \<noteq> REAL_LIVE \<or> apiClient eng = None"
  shows "\<exists>t. activePositions (fst (openPosition eng now s p qty sl tp)) = activePositions s @ [t]
           \<and> average_entry_price t = entry_price t
           \<and> total_cost_usd t = entry_price t * quantity t"
  using assms
  by (auto simp: openPosition_def recordOpen_def newTrade_def Let_def)


text \<open>
  C2, as the claim states it, fails on the live path. \<open>demo_pair\<close>, priced 100, is
  filled at 101: the position has entry price 101, average entry price 100, quantity 2
  and total cost 200. Closed at 108, it records the profit 14 and the percentage
  \<open>700 / 101\<close>, where the claim's formulas give 16 and 7.
\<close>

theorem live_fill_pnl:
  "evaluateSignal filling 0 live_state demo_pair =
       Some (holding_state,
             [Log TRADE MsgSignalConfirmed ''BTCUSDT'', Log TRADE MsgOpenAttempt ''BTCUSDT'',
              CreateOrder demo_buy, Log TRADE MsgOrderOk ''BTCUSDT'',
              Log TRADE MsgOpened ''BTCUSDT'', SaveData, Broadcast])
   \<and> closePosition filling 5 holding_state demo_trade 108 =
       (closed_state,
        [Log TRADE MsgCloseAttempt ''BTCUSDT'', CreateOrder demo_sell,
         Log TRADE MsgSellOk ''BTCUSDT'', Log TRADE MsgClosed ''BTCUSDT'', SaveData, Broadcast])
   \<and> tradeHistory closed_state = [demo_closed] \<and> status demo_closed = CLOSED
   \<and> exit_price demo_closed = Some 108
   \<and> pnl demo_closed = 14
   \<and> (108 - average_entry_price demo_closed) * quantity demo_closed = 16
   \<and> pnl_pct demo_closed = Fin (700 / 101)
   \<and> pnl demo_closed / total_cost_usd demo_closed * 100 = 7
   \<and> pnl demo_closed \<noteq> (108 - average_entry_price demo_closed) * quantity demo_closed
   \<and> pnl_pct demo_closed \<noteq> Fin (pnl demo_closed / total_cost_usd demo_closed * 100)"
proof (intro conjI)
  show "evaluateSignal filling 0 live_state demo_pair =
       Some (holding_state,
             [Log TRADE MsgSignalConfirmed ''BTCUSDT'', Log TRADE MsgOpenAttempt ''BTCUSDT'',
              CreateOrder demo_buy, Log TRADE MsgOrderOk ''BTCUSDT'',
              Log TRADE MsgOpened ''BTCUSDT'', SaveData, Broadcast])"
    by (simp add: demo_defs evaluateSignal_def Let_def js_div_def open_defs)
  show "closePosition filling 5 holding_state demo_trade 108 =
       (closed_state,
        [Log TRADE MsgCloseAttempt ''BTCUSDT'', CreateOrder demo_sell,
         Log TRADE MsgSellOk ''BTCUSDT'', Log TRADE MsgClosed ''BTCUSDT'', SaveData, Broadcast])"
    by (simp add: demo_defs demo_sell_def demo_closed_def closed_state_def close_defs)
qed (simp_all add: demo_defs demo_closed_def closed_state_def)


text \<open>
  C2, amended. A trade closed by \<open>closePosition\<close> is appended to the history with status
  CLOSED, the exit price it was closed at, \<open>pnl = (exit_price - entry_price) * quantity\<close>
  and, when \<open>entry_price * quantity\<close> is not zero,
  \<open>pnl_pct = pnl / (entry_price * quantity) * 100\<close>. These are the values of the claim
  whenever the average entry price is the entry price and the total cost is
  \<open>entry_price * quantity\<close>, which is how \<open>openPosition\<close> records every position that is
  not opened through a live order.
\<close>

theorem closed_trade_pnl:
  assumes "findIndex (\<lambda>p. id_trade p = id_trade position) (activePositions s) = Some i"
    and "closePosition eng now s position exitPrice = (s', evs)"
  shows "(\<exists>t. tradeHistory s' = tradeHistory s @ [t]
           \<and> t = closeTrade now exitPrice (activePositions s ! i)
           \<and> status t = CLOSED \<and> exit_price t = Some exitPrice
           \<and> pnl t = (exitPrice - entry_price t) * quantity t
           \<and> (entry_price t * quantity t \<noteq> 0 \<longrightarrow>
                pnl_pct t = Fin (pnl t / (entry_price t * quantity t) * 100))
           \<and> (average_entry_price t = entry_price t \<longrightarrow>
                pnl t = (exitPrice - average_entry_price t) * quantity t)
           \<and> (total_cost_usd t = entry_price t * quantity t \<and> total_cost_usd t \<noteq> 0 \<longrightarrow>
                pnl_pct t = Fin (pnl t / total_cost_usd t * 100)))
         \<and> (\<forall>eng2 now2 s2 p qty sl tp.
               tradingMode s2 \<noteq> REAL_LIVE \<or> apiClient eng2 = None \<longrightarrow>
               (\<exists>t. activePositions (fst (openPosition eng2 now2 s2 p qty sl tp))
                       = activePositions s2 @ [t]
                     \<and> average_entry_price t = entry_price t
                     \<and> total_cost_usd t = entry_price t * quantity t))"
  using closePosition_settles [OF assms] openPosition_virtual by blast

theorem closed_trade_pnl_witness:
  "findIndex (\<lambda>p. id_trade p = id_trade demo_trade) (activePositions holding_state) = Some 0
   \<and> map pnl (tradeHistory (fst (closePosition filling 5 holding_state demo_trade 108))) = [14]
   \<and> map pnl_pct (tradeHistory (fst (closePosition filling 5 holding_state demo_trade 108)))
       = [Fin (700 / 101)]
   \<and> tradingMode virtual_state \<noteq> REAL_LIVE
   \<and> map average_entry_price
         (activePositions (fst (openPosition filling 0 virtual_state demo_pair 2 98 108)))
       = map entry_price
         (activePositions (fst (openPosition filling 0 virtual_state demo_pair 2 98 108)))"
proof -
  have f: "findIndex (\<lambda>p. id_trade p = id_trade demo_trade) (activePositions holding_state) = Some 0"
    by (simp add: holding_state_def live_state_def)
  note th = closed_trade_pnl [OF f prod.collapse [symmetric],
              where eng = filling and now = 5 and exitPrice = 108]
  have v: "tradingMode virtual_state \<noteq> REAL_LIVE"
    by (simp add: virtual_state_def live_state_def)
  let ?s' = "fst (closePosition filling 5 holding_state demo_trade 108)"
  obtain t where t: "tradeHistory ?s' = tradeHistory holding_state @ [t]"
      "t = closeTrade 5 108 (activePositions holding_state ! 0)"
      "pnl t = (108 - entry_price t) * quantity t"
      "entry_price t * quantity t \<noteq> 0 \<longrightarrow>
         pnl_pct t = Fin (pnl t / (entry_price t * quantity t) * 100)"
    using th by blast
  have e: "entry_price t = 101" "quantity t = 2"
    using t(2) by (simp_all add: closeTrade_def Let_def holding_state_def demo_trade_def)
  have p: "pnl t = 14" using t(3) e by simp
  have q: "pnl_pct t = Fin (700 / 101)" using t(4) e p by simp
  have h: "tradeHistory ?s' = [t]" using t(1) by (simp add: holding_state_def live_state_def)
  obtain u where u: "activePositions (fst (openPosition filling 0 virtual_state demo_pair 2 98 108))
                       = activePositions virtual_state @ [u]"
      "average_entry_price u = entry_price u"
    using th v by blast
  have "map average_entry_price
         (activePositions (fst (openPosition filling 0 virtual_state demo_pair 2 98 108)))
       = map entry_price
         (activePositions (fst (openPosition filling 0 virtual_state demo_pair 2 98 108)))"
    using u by (simp add: virtual_state_def live_state_def)
  with f v h p q show ?thesis by simp
qed

subsection \<open>Monitoring\<close>

lemma monitor_fields:
  "id_trade (monitor st cp t) = id_trade t"
  "symbol (monitor st cp t) = symbol t"
  "entry_price (monitor st cp t) = entry_price t"
  "quantity (monitor st cp t) = quantity t"
  "take_profit (monitor st cp t) = take_profit t"
  "strategy_type (monitor st cp t) = strategy_type t"
  "highest_price_since_entry (monitor st cp t) = max (highest_price_since_entry t) cp"
  by (simp_all add: monitor_def trailIgnition_def Let_def)

lemma monitor_stop:
  "stop_loss (monitor st cp t) =
     (if strategy_type t = Some IGNITION \<and> USE_IGNITION_TRAILING_STOP st
      then max (stop_loss t)
               (max (highest_price_since_entry t) cp * (1 - IGNITION_TRAILING_STOP_PCT st / 100))
      else stop_loss t)"
  by (simp add: monitor_def trailIgnition_def Let_def max_def)

lemma monitor_ignition:
  assumes "strategy_type t = Some IGNITION" "USE_IGNITION_TRAILING_STOP st"
  shows "monitor st cp t =
           t\<lparr> highest_price_since_entry := max (highest_price_since_entry t) cp,
              stop_loss := max (stop_loss t)
                (max (highest_price_since_entry t) cp * (1 - IGNITION_TRAILING_STOP_PCT st / 100)) \<rparr>"
  using assms by (simp add: monitor_def trailIgnition_def Let_def max_def)

lemma monitor_plain:
  assumes "\<not> (strategy_type t = Some IGNITION \<and> USE_IGNITION_TRAILING_STOP st)"
  shows "monitor st cp t = t\<lparr> highest_price_since_entry := max (highest_price_since_entry t) cp \<rparr>"
  using assms by (auto simp: monitor_def Let_def)

lemma checkPosition_tick:
  assumes "i < length (activePositions s)"
    and "priceCache s (symbol (activePositions s ! i)) = Some cp" and "cp \<noteq> 0"
  shows "checkPosition eng now s i =
           (let position = monitor (settings s) cp (activePositions s ! i);
                s1 = s\<lparr> activePositions := (activePositions s)[i := position] \<rparr>
            in case exitDecision (settings s) cp position of
                 None \<Rightarrow> (s1, [])
               | Some (exitReason, exitPrice) \<Rightarrow>
                   (let (s2, evs) = closePosition eng now s1 position exitPrice
                    in (s2, Log TRADE exitReason (symbol position) # evs)))"
  using assms by (simp add: checkPosition_def Let_def)

lemma close_after_update:
  assumes "i < length (activePositions s)" "distinct (map id_trade (activePositions s))"
    and "id_trade q = id_trade (activePositions s ! i)"
  shows "fst (closePosition eng now (s\<lparr> activePositions := (activePositions s)[i := q] \<rparr>) q x) =
           s\<lparr> activePositions := take i (activePositions s) @ drop (Suc i) (activePositions s),
              balance := balance s + (entry_price q * quantity q + (x - entry_price q) * quantity q),
              tradeHistory := tradeHistory s @ [closeTrade now x q],
              recentlyLostSymbols :=
                (if (x - entry_price q) * quantity q < 0
                 then (recentlyLostSymbols s)(symbol q \<mapsto>
                        now + LOSS_COOLDOWN_HOURS (settings s) * 60 * 60 * 1000)
                 else recentlyLostSymbols s) \<rparr>"
proof -
  let ?xs = "(activePositions s)[i := q]"
  have m: "map id_trade ?xs = map id_trade (activePositions s)"
    using assms(1,3) by (simp add: map_update list_update_same_conv)
  have n: "?xs ! i = q" using assms(1) by simp
  have "findIndex (\<lambda>p. id_trade p = id_trade (?xs ! i)) ?xs = Some i"
    by (rule findIndex_distinct) (use assms m in simp_all)
  then have f: "findIndex (\<lambda>p. id_trade p = id_trade q)
                  (activePositions (s\<lparr> activePositions := ?xs \<rparr>)) = Some i"
    using n by simp
  show ?thesis
    using closePosition_found [OF f, of eng now x] n assms(1) by simp
qed


text \<open>
  C5. A tick is a price in the cache that is not zero (a missing or zero price makes
  \<open>checkPosition\<close> return at once). For an open position that is not on the Ignition
  trailing stop: a price at or below the stop closes it at the stop price; otherwise a
  price at or above the target closes it at the target price. The closed trade leaves
  \<open>activePositions\<close> and joins the history; when its pnl is negative, the symbol's cooldown
  expiry is \<open>now\<close> plus \<open>LOSS_COOLDOWN_HOURS\<close> hours (in milliseconds), and until then
  \<open>evaluateSignal\<close> rejects every signal for that symbol.
\<close>

theorem stop_and_target_exits:
  assumes "i < length (activePositions s)"
    and "distinct (map id_trade (activePositions s))"
    and "position = activePositions s ! i"
    and "\<not> (strategy_type position = Some IGNITION \<and> USE_IGNITION_TRAILING_STOP (settings s))"
    and "priceCache s (symbol position) = Some currentPrice" and "currentPrice \<noteq> 0"
    and "checkPosition eng now s i = (s', evs)"
    and "exitPrice = (if currentPrice \<le> stop_loss position then stop_loss position
                      else take_profit position)"
    and "currentPrice \<le> stop_loss position \<or> take_profit position \<le> currentPrice"
  shows "\<exists>t. tradeHistory s' = tradeHistory s @ [t]
           \<and> activePositions s' = take i (activePositions s) @ drop (Suc i) (activePositions s)
           \<and> id_trade t = id_trade position \<and> symbol t = symbol position
           \<and> status t = CLOSED \<and> exit_price t = Some exitPrice
           \<and> pnl t = (exitPrice - entry_price position) * quantity position
           \<and> (pnl t < 0 \<longrightarrow>
                recentlyLostSymbols s' (symbol position)
                  = Some (now + LOSS_COOLDOWN_HOURS (settings s) * 60 * 60 * 1000)
                \<and> (\<forall>eng2 later p. pair_symbol p = symbol position
                       \<and> later < now + LOSS_COOLDOWN_HOURS (settings s) * 60 * 60 * 1000
                     \<longrightarrow> evaluateSignal eng2 later s' p = Some (s', [])))"
proof -
  let ?q = "monitor (settings s) currentPrice position"
  have q: "?q = position\<lparr> highest_price_since_entry :=
                   max (highest_price_since_entry position) currentPrice \<rparr>"
    using assms(4) by (rule monitor_plain)
  have idq: "id_trade ?q = id_trade (activePositions s ! i)"
    using assms(3) by (simp add: monitor_fields)
  have ex: "exitDecision (settings s) currentPrice ?q =
              Some (if currentPrice \<le> stop_loss position then MsgStopLoss else MsgTakeProfit, exitPrice)"
    using assms(4,8,9) by (auto simp: exitDecision_def q)
  have "checkPosition eng now s i =
          (let (s2, evs) = closePosition eng now
                 (s\<lparr> activePositions := (activePositions s)[i := ?q] \<rparr>) ?q exitPrice
           in (s2, Log TRADE (if currentPrice \<le> stop_loss position then MsgStopLoss else MsgTakeProfit)
                     (symbol ?q) # evs))"
    using checkPosition_tick [of i s currentPrice eng now] assms(1,3,5,6) ex
    by (simp add: Let_def)
  then have "s' = fst (closePosition eng now
                 (s\<lparr> activePositions := (activePositions s)[i := ?q] \<rparr>) ?q exitPrice)"
    using assms(7) by (simp add: split_beta)
  then have s': "s' = s\<lparr> activePositions := take i (activePositions s) @ drop (Suc i) (activePositions s),
              balance := balance s + (entry_price ?q * quantity ?q + (exitPrice - entry_price ?q) * quantity ?q),
              tradeHistory := tradeHistory s @ [closeTrade now exitPrice ?q],
              recentlyLostSymbols :=
                (if (exitPrice - entry_price ?q) * quantity ?q < 0
                 then (recentlyLostSymbols s)(symbol ?q \<mapsto>
                        now + LOSS_COOLDOWN_HOURS (settings s) * 60 * 60 * 1000)
                 else recentlyLostSymbols s) \<rparr>"
    using close_after_update [OF assms(1,2) idq, of eng now exitPrice] by simp
  let ?t = "closeTrade now exitPrice ?q"
  have cool: "recentlyLostSymbols s' (symbol position)
                  = Some (now + LOSS_COOLDOWN_HOURS (settings s) * 60 * 60 * 1000)"
    if "pnl ?t < 0"
    using that s' by (simp add: closeTrade_fields monitor_fields)
  have block: "evaluateSignal eng2 later s' p = Some (s', [])"
    if "pnl ?t < 0" "pair_symbol p = symbol position"
       "later < now + LOSS_COOLDOWN_HOURS (settings s) * 60 * 60 * 1000" for eng2 later p
    by (rule evaluateSignal_rejects) (use cool [OF that(1)] that(2,3) in simp)
  show ?thesis
  proof (intro exI [of _ ?t] conjI)
    show "tradeHistory s' = tradeHistory s @ [?t]" using s' by simp
    show "activePositions s' = take i (activePositions s) @ drop (Suc i) (activePositions s)"
      using s' by simp
    show "id_trade ?t = id_trade position" by (simp add: closeTrade_fields monitor_fields)
    show "symbol ?t = symbol position" by (simp add: closeTrade_fields monitor_fields)
    show "status ?t = CLOSED" by (rule closeTrade_fields)
    show "exit_price ?t = Some exitPrice" by (rule closeTrade_fields)
    show "pnl ?t = (exitPrice - entry_price position) * quantity position"
      by (simp add: closeTrade_fields monitor_fields)
    show "pnl ?t < 0 \<longrightarrow>
                recentlyLostSymbols s' (symbol position)
                  = Some (now + LOSS_COOLDOWN_HOURS (settings s) * 60 * 60 * 1000)
                \<and> (\<forall>eng2 later p. pair_symbol p = symbol position
                       \<and> later < now + LOSS_COOLDOWN_HOURS (settings s) * 60 * 60 * 1000
                     \<longrightarrow> evaluateSignal eng2 later s' p = Some (s', []))"
      using cool block by blast
  qed
qed


theorem stop_and_target_exits_witness:
  "0 < length (activePositions stopped_state)
   \<and> distinct (map id_trade (activePositions stopped_state))
   \<and> strategy_type (activePositions stopped_state ! 0) \<noteq> Some IGNITION
   \<and> priceCache stopped_state (symbol (activePositions stopped_state ! 0)) = Some 98
   \<and> stop_loss (activePositions stopped_state ! 0) = 98
   \<and> map exit_price (tradeHistory (fst (checkPosition filling 7 stopped_state 0))) = [Some 98]
   \<and> map pnl (tradeHistory (fst (checkPosition filling 7 stopped_state 0))) = [- 6]
   \<and> activePositions (fst (checkPosition filling 7 stopped_state 0)) = []
   \<and> recentlyLostSymbols (fst (checkPosition filling 7 stopped_state 0)) ''BTCUSDT''
       = Some 14400007"
proof -
  have a: "0 < length (activePositions stopped_state)"
          "distinct (map id_trade (activePositions stopped_state))"
          "activePositions stopped_state ! 0 = demo_trade"
    by (simp_all add: stopped_state_def holding_state_def live_state_def)
  have b: "\<not> (strategy_type demo_trade = Some IGNITION
               \<and> USE_IGNITION_TRAILING_STOP (settings stopped_state))"
          "priceCache stopped_state (symbol demo_trade) = Some 98"
          "(98::real) \<noteq> 0"
          "98 \<le> stop_loss demo_trade \<or> take_profit demo_trade \<le> 98"
          "stop_loss demo_trade = 98" "strategy_type demo_trade \<noteq> Some IGNITION"
    by (simp_all add: stopped_state_def holding_state_def live_state_def demo_trade_def)
  have x: "(98::real) = (if 98 \<le> stop_loss demo_trade then stop_loss demo_trade
                         else take_profit demo_trade)"
    by (simp add: demo_trade_def)
  note th = stop_and_target_exits [OF a(1,2) a(3) [symmetric] b(1,2,3)
              prod.collapse [symmetric] x b(4), where eng = filling and now = 7]
  let ?s' = "fst (checkPosition filling 7 stopped_state 0)"
  obtain t where t: "tradeHistory ?s' = tradeHistory stopped_state @ [t]"
      "activePositions ?s' = take 0 (activePositions stopped_state)
                             @ drop (Suc 0) (activePositions stopped_state)"
      "exit_price t = Some 98"
      "pnl t = (98 - entry_price demo_trade) * quantity demo_trade"
      "pnl t < 0 \<longrightarrow> recentlyLostSymbols ?s' (symbol demo_trade)
                  = Some (7 + LOSS_COOLDOWN_HOURS (settings stopped_state) * 60 * 60 * 1000)"
    using th by blast
  have p: "pnl t = - 6" using t(4) by (simp add: demo_trade_def)
  have h: "tradeHistory ?s' = [t]"
    using t(1) by (simp add: stopped_state_def holding_state_def live_state_def)
  have n: "activePositions ?s' = []"
    using t(2) by (simp add: stopped_state_def holding_state_def live_state_def)
  have c: "recentlyLostSymbols ?s' ''BTCUSDT'' = Some 14400007"
    using t(5) p
    by (simp add: stopped_state_def holding_state_def live_state_def demo_settings_def demo_trade_def)
  from a b h p n c t(3) show ?thesis by simp
qed


lemma monitor_stop_mono: "stop_loss t \<le> stop_loss (monitor st cp t)"
  by (simp add: monitor_stop)

lemma monitorTicks_stop_mono: "stop_loss t \<le> stop_loss (monitorTicks t ticks)"
proof (induction ticks arbitrary: t)
  case Nil
  then show ?case by simp
next
  case (Cons a ticks)
  obtain st cp where a: "a = (st, cp)" by (cases a)
  have "stop_loss t \<le> stop_loss (monitor st cp t)" by (rule monitor_stop_mono)
  also have "\<dots> \<le> stop_loss (monitorTicks (monitor st cp t) ticks)" by (rule Cons.IH)
  finally show ?case by (simp add: a)
qed

text \<open>
  C6. For an open Ignition position with the trailing stop enabled, a tick moves the stop
  to the larger of the old stop and the highest price since entry, the tick included,
  times \<open>1 - IGNITION_TRAILING_STOP_PCT / 100\<close>. Above the new stop the position stays
  open whatever its take-profit is; at or below it, the position is closed at the new
  stop. Over any sequence of ticks the stop never decreases.
\<close>

theorem ignition_trailing_stop:
  assumes "i < length (activePositions s)"
    and "distinct (map id_trade (activePositions s))"
    and "position = activePositions s ! i"
    and "strategy_type position = Some IGNITION"
    and "USE_IGNITION_TRAILING_STOP (settings s)"
    and "priceCache s (symbol position) = Some currentPrice" and "currentPrice \<noteq> 0"
    and "checkPosition eng now s i = (s', evs)"
    and "highest = max (highest_price_since_entry position) currentPrice"
    and "trail = max (stop_loss position)
                     (highest * (1 - IGNITION_TRAILING_STOP_PCT (settings s) / 100))"
  shows "stop_loss position \<le> trail
         \<and> (trail < currentPrice \<longrightarrow>
               activePositions s' = (activePositions s)
                 [i := position\<lparr> highest_price_since_entry := highest, stop_loss := trail \<rparr>]
               \<and> tradeHistory s' = tradeHistory s \<and> balance s' = balance s \<and> evs = [])
         \<and> (currentPrice \<le> trail \<longrightarrow>
               (\<exists>t. tradeHistory s' = tradeHistory s @ [t]
                  \<and> activePositions s' = take i (activePositions s) @ drop (Suc i) (activePositions s)
                  \<and> id_trade t = id_trade position \<and> status t = CLOSED
                  \<and> stop_loss t = trail \<and> exit_price t = Some trail))
         \<and> (\<forall>ticks. stop_loss position \<le> stop_loss (monitorTicks position ticks))"
proof -
  let ?q = "monitor (settings s) currentPrice position"
  have q: "?q = position\<lparr> highest_price_since_entry := highest, stop_loss := trail \<rparr>"
    using monitor_ignition [OF assms(4,5), of currentPrice] assms(9,10) by simp
  have idq: "id_trade ?q = id_trade (activePositions s ! i)"
    using assms(3) by (simp add: monitor_fields)
  have ig: "strategy_type ?q = Some IGNITION" using assms(4) by (simp add: monitor_fields)
  have sq: "stop_loss ?q = trail" by (simp add: q)
  note tick = checkPosition_tick [of i s currentPrice eng now, OF assms(1)
                 assms(6) [unfolded assms(3)] assms(7), folded assms(3)]
  have stay: "activePositions s' = (activePositions s)[i := ?q]
               \<and> tradeHistory s' = tradeHistory s \<and> balance s' = balance s \<and> evs = []"
    if "trail < currentPrice"
  proof -
    have "exitDecision (settings s) currentPrice ?q = None"
      using that ig assms(5) sq by (simp add: exitDecision_def)
    then have "checkPosition eng now s i = (s\<lparr> activePositions := (activePositions s)[i := ?q] \<rparr>, [])"
      using tick by (simp add: Let_def)
    with assms(8) show ?thesis by auto
  qed
  have leave: "\<exists>t. tradeHistory s' = tradeHistory s @ [t]
                  \<and> activePositions s' = take i (activePositions s) @ drop (Suc i) (activePositions s)
                  \<and> id_trade t = id_trade position \<and> status t = CLOSED
                  \<and> stop_loss t = trail \<and> exit_price t = Some trail"
    if "currentPrice \<le> trail"
  proof -
    have "exitDecision (settings s) currentPrice ?q = Some (MsgIgnitionStop, trail)"
      using that ig assms(5) sq by (simp add: exitDecision_def)
    then have "checkPosition eng now s i =
          (let (s2, evs) = closePosition eng now
                 (s\<lparr> activePositions := (activePositions s)[i := ?q] \<rparr>) ?q trail
           in (s2, Log TRADE MsgIgnitionStop (symbol ?q) # evs))"
      using tick by (simp add: Let_def)
    then have "s' = fst (closePosition eng now
                 (s\<lparr> activePositions := (activePositions s)[i := ?q] \<rparr>) ?q trail)"
      using assms(8) by (simp add: split_beta)
    then have s': "s' = s\<lparr> activePositions := take i (activePositions s) @ drop (Suc i) (activePositions s),
              balance := balance s + (entry_price ?q * quantity ?q + (trail - entry_price ?q) * quantity ?q),
              tradeHistory := tradeHistory s @ [closeTrade now trail ?q],
              recentlyLostSymbols :=
                (if (trail - entry_price ?q) * quantity ?q < 0
                 then (recentlyLostSymbols s)(symbol ?q \<mapsto>
                        now + LOSS_COOLDOWN_HOURS (settings s) * 60 * 60 * 1000)
                 else recentlyLostSymbols s) \<rparr>"
      using close_after_update [OF assms(1,2) idq, of eng now trail] by simp
    show ?thesis
    proof (intro exI [of _ "closeTrade now trail ?q"] conjI)
      show "tradeHistory s' = tradeHistory s @ [closeTrade now trail ?q]" using s' by simp
      show "activePositions s' = take i (activePositions s) @ drop (Suc i) (activePositions s)"
        using s' by simp
      show "id_trade (closeTrade now trail ?q) = id_trade position"
        by (simp add: closeTrade_fields monitor_fields)
      show "status (closeTrade now trail ?q) = CLOSED" by (rule closeTrade_fields)
      show "stop_loss (closeTrade now trail ?q) = trail" by (simp add: closeTrade_fields sq)
      show "exit_price (closeTrade now trail ?q) = Some trail" by (rule closeTrade_fields)
    qed
  qed
  have mono: "stop_loss position \<le> trail" using assms(10) by simp
  show ?thesis
    using mono stay leave monitorTicks_stop_mono unfolding q by blast
qed


theorem ignition_trailing_stop_witness:
  "strategy_type ignition_trade = Some IGNITION
   \<and> USE_IGNITION_TRAILING_STOP (settings rising_state)
   \<and> activePositions rising_state = [ignition_trade]
   \<and> priceCache rising_state ''BTCUSDT'' = Some 110
   \<and> activePositions (fst (checkPosition filling 7 rising_state 0))
       = [ignition_trade\<lparr> highest_price_since_entry := 110, stop_loss := 10835 / 100 \<rparr>]
   \<and> tradeHistory (fst (checkPosition filling 7 rising_state 0)) = []
   \<and> priceCache falling_state ''BTCUSDT'' = Some (10835 / 100)
   \<and> activePositions (fst (checkPosition filling 8 falling_state 0)) = []
   \<and> map exit_price (tradeHistory (fst (checkPosition filling 8 falling_state 0)))
       = [Some (10835 / 100)]"
proof -
  have a: "0 < length (activePositions rising_state)"
          "distinct (map id_trade (activePositions rising_state))"
          "activePositions rising_state ! 0 = ignition_trade"
          "activePositions rising_state = [ignition_trade]"
          "tradeHistory rising_state = []"
    by (simp_all add: rising_state_def holding_state_def live_state_def)
  have b: "strategy_type ignition_trade = Some IGNITION"
          "USE_IGNITION_TRAILING_STOP (settings rising_state)"
          "priceCache rising_state (symbol ignition_trade) = Some 110"
          "priceCache rising_state ''BTCUSDT'' = Some 110"
          "(110::real) \<noteq> 0"
    by (simp_all add: rising_state_def holding_state_def live_state_def demo_trade_def
                      ignition_trade_def demo_settings_def)
  have h: "(110::real) = max (highest_price_since_entry ignition_trade) 110"
    by (simp add: ignition_trade_def demo_trade_def)
  have r: "(10835 / 100 :: real) = max (stop_loss ignition_trade)
             (110 * (1 - IGNITION_TRAILING_STOP_PCT (settings rising_state) / 100))"
    by (simp add: rising_state_def holding_state_def live_state_def demo_trade_def
                  ignition_trade_def demo_settings_def)
  note up = ignition_trailing_stop [OF a(1,2) a(3) [symmetric] b(1,2,3,5)
              prod.collapse [symmetric] h r, where eng = filling and now = 7]
  have up1: "activePositions (fst (checkPosition filling 7 rising_state 0))
       = [ignition_trade\<lparr> highest_price_since_entry := 110, stop_loss := 10835 / 100 \<rparr>]"
    and up2: "tradeHistory (fst (checkPosition filling 7 rising_state 0)) = []"
    using up a(4,5) by simp_all
  let ?f = "ignition_trade\<lparr> highest_price_since_entry := 110, stop_loss := 10835 / 100 \<rparr>"
  have c: "0 < length (activePositions falling_state)"
          "distinct (map id_trade (activePositions falling_state))"
          "activePositions falling_state ! 0 = ?f"
          "tradeHistory falling_state = []"
    by (simp_all add: falling_state_def holding_state_def live_state_def)
  have d: "strategy_type ?f = Some IGNITION"
          "USE_IGNITION_TRAILING_STOP (settings falling_state)"
          "priceCache falling_state (symbol ?f) = Some (10835 / 100)"
          "priceCache falling_state ''BTCUSDT'' = Some (10835 / 100)"
          "(10835 / 100 :: real) \<noteq> 0"
    by (simp_all add: falling_state_def holding_state_def live_state_def demo_trade_def
                      ignition_trade_def demo_settings_def)
  have h2: "(110::real) = max (highest_price_since_entry ?f) (10835 / 100)"
    by simp
  have r2: "(10835 / 100 :: real) = max (stop_loss ?f)
             (110 * (1 - IGNITION_TRAILING_STOP_PCT (settings falling_state) / 100))"
    by (simp add: falling_state_def holding_state_def live_state_def demo_settings_def)
  note down = ignition_trailing_stop [OF c(1,2) c(3) [symmetric] d(1,2,3,5)
              prod.collapse [symmetric] h2 r2, where eng = filling and now = 8]
  obtain t where t: "tradeHistory (fst (checkPosition filling 8 falling_state 0))
                       = tradeHistory falling_state @ [t]"
      "activePositions (fst (checkPosition filling 8 falling_state 0))
         = take 0 (activePositions falling_state) @ drop (Suc 0) (activePositions falling_state)"
      "exit_price t = Some (10835 / 100)"
    using down by auto
  have dn1: "activePositions (fst (checkPosition filling 8 falling_state 0)) = []"
    using t(2) by (simp add: falling_state_def holding_state_def live_state_def)
  have dn2: "map exit_price (tradeHistory (fst (checkPosition filling 8 falling_state 0)))
       = [Some (10835 / 100)]"
    using t(1,3) c(4) by simp
  from b(1,2) a(4) b(4) up1 up2 d(4) dn1 dn2 show ?thesis by (intro conjI)
qed


subsection \<open>Quantity formatting\<close>

text \<open>With step size 1 the result is the floor of the quantity, and not above it.\<close>

lemma formatQuantity_unit_step:
  assumes "symRules smb = Some r" "stepSize r = Some 1"
  shows "formatQuantity symRules smb qty = Fin (of_int \<lfloor>qty\<rfloor>) \<and> of_int \<lfloor>qty\<rfloor> \<le> qty"
  using assms by (simp add: formatQuantity_def)

lemma formatQuantity_step:
  assumes "symRules smb = Some r" "stepSize r = Some st" "0 < st" "st \<noteq> 1"
    and "fl (log 10 st) = l" "dbl (10 powr max 0 (- l)) = Fin factor"
    and "dbl (qty * factor) = Fin scaled" "dbl (of_int \<lfloor>scaled\<rfloor> / factor) = v"
  shows "formatQuantity symRules smb qty = v"
  using assms by (simp add: formatQuantity_def)

text \<open>
  C9. \<open>formatQuantity\<close> can round up. With the step \<open>0.1\<close> and the quantity
  \<open>0.8999999999999999\<close>, the double next below \<open>0.9\<close>, the logarithm of the step rounds
  to \<open>-1\<close> and the factor is 10; the product \<open>quantity * 10\<close> lies halfway between two
  doubles and rounds to 9, \<open>Math.floor\<close> leaves 9, and \<open>9 / 10\<close> is the double \<open>0.9\<close>: the
  returned quantity is above the raw one.
\<close>

theorem formatQuantity_rounds_up:
  "dime_rules ''ATOMUSDT'' = Some \<lparr> stepSize = Some (3602879701896397 / 2 ^ 55) \<rparr>
   \<and> formatQuantity dime_rules ''ATOMUSDT'' (8106479329266892 / 2 ^ 53)
       = Fin (8106479329266893 / 2 ^ 53)
   \<and> (8106479329266892 / 2 ^ 53 :: real) < 8106479329266893 / 2 ^ 53"
proof (intro conjI)
  show r: "dime_rules ''ATOMUSDT'' = Some \<lparr> stepSize = Some (3602879701896397 / 2 ^ 55) \<rparr>"
    by (simp add: dime_rules_def)
  have st: "stepSize \<lparr> stepSize = Some (3602879701896397 / 2 ^ 55) \<rparr>
              = Some (3602879701896397 / 2 ^ 55)"
    by simp
  have pos: "(0::real) < 3602879701896397 / 2 ^ 55" "(3602879701896397 / 2 ^ 55 :: real) \<noteq> 1"
    by simp_all
  have f: "dbl (10 powr max 0 (- (- 1))) = Fin 10"
    by (rule dbl_eval) (simp_all add: fl_10)
  have s: "dbl (8106479329266892 / 2 ^ 53 * 10) = Fin 9"
    by (rule dbl_eval [OF fl_scaled]) simp
  have "dbl (9 / 10) = Fin (8106479329266893 / 2 ^ 53)"
    by (rule dbl_eval [OF fl_quotient]) simp
  then have q: "dbl (of_int \<lfloor>9 :: real\<rfloor> / 10) = Fin (8106479329266893 / 2 ^ 53)"
    by simp
  show "formatQuantity dime_rules ''ATOMUSDT'' (8106479329266892 / 2 ^ 53)
          = Fin (8106479329266893 / 2 ^ 53)"
    by (rule formatQuantity_step
          [where r = "\<lparr> stepSize = Some (3602879701896397 / 2 ^ 55) \<rparr>"
             and st = "3602879701896397 / 2 ^ 55" and l = "- 1" and factor = 10 and scaled = 9
             and symRules = dime_rules and smb = "''ATOMUSDT''"
             and qty = "8106479329266892 / 2 ^ 53",
           OF r st pos fl_log10_step f s q])
  show "(8106479329266892 / 2 ^ 53 :: real) < 8106479329266893 / 2 ^ 53" by simp
qed


subsection \<open>Squeeze detection\<close>

lemma quartile_widths: "bbWidths quartile_bands = [Fin 5, Fin 6, Fin 4, Fin 7, Fin (9 / 2)]"
  by (simp add: quartile_bands_def bbWidths_def widthPct_def js_div_def)

lemma quartile_sorted: "sortAscending [Fin 5, Fin 6, Fin 4, Fin 7, Fin (9 / 2)] = [Fin 4, Fin (9 / 2), Fin 5, Fin 6, Fin 7]"
  by (simp add: sortAscending_def)


lemma flat_widths: "bbWidths flat_bands = [Fin 0, Fin 0, Fin 0, Fin 0]"
  by (simp add: flat_bands_def bbWidths_def widthPct_def js_div_def numeral_eq_Suc)

lemma flat_sorted: "sortAscending [Fin 0, Fin 0, Fin 0, Fin 0] = [Fin 0, Fin 0, Fin 0, Fin 0]"
  by (simp add: sortAscending_def)

lemma analyze15m_flag:
  "r_is_in_squeeze_15m (analyze15m lib klines)
     = Some (is_in_squeeze_15m (BollingerBands_calculate lib 20 2 (map k_close klines)))"
  by (simp add: analyze15m_def Let_def)

text \<open>
  C8, as the claim states it, fails: the comparison of line 114 is strict. In
  \<open>quartile_bands\<close> the last width, 4.5, is the element at the quartile index of the sorted
  widths 4, 4.5, 5, 6, 7; in \<open>flat_bands\<close>, the bands of a price that stays at 100,
  every width is 0. In both the current width equals the threshold and the flag is false.
\<close>

theorem squeeze_is_strict:
  "lastWidth quartile_bands = Some (Fin (9 / 2))
   \<and> squeezeThreshold quartile_bands = Some (Fin (9 / 2))
   \<and> is_in_squeeze_15m quartile_bands = False
   \<and> lastWidth flat_bands = Some (Fin 0)
   \<and> squeezeThreshold flat_bands = Some (Fin 0)
   \<and> is_in_squeeze_15m flat_bands = False
   \<and> r_is_in_squeeze_15m (analyze15m flat_lib (replicate 23 still_candle)) = Some False"
proof -
  have a: "lastWidth quartile_bands = Some (Fin (9 / 2))"
    by (simp add: lastWidth_def quartile_widths lastOf_def)
  have b: "squeezeThreshold quartile_bands = Some (Fin (9 / 2))"
    by (simp add: squeezeThreshold_def quartile_widths quartile_sorted elemAt_def)
  have c: "lastWidth flat_bands = Some (Fin 0)"
    by (simp add: lastWidth_def flat_widths lastOf_def)
  have d: "squeezeThreshold flat_bands = Some (Fin 0)"
    by (simp add: squeezeThreshold_def flat_widths flat_sorted elemAt_def)
  have e: "is_in_squeeze_15m quartile_bands = False" "is_in_squeeze_15m flat_bands = False"
    by (simp_all add: is_in_squeeze_15m_def a b c d)
  have "BollingerBands_calculate flat_lib 20 2 (map k_close (replicate 23 still_candle)) = flat_bands"
    by (simp add: flat_lib_def)
  then have f: "r_is_in_squeeze_15m (analyze15m flat_lib (replicate 23 still_candle)) = Some False"
    by (simp only: analyze15m_flag e)
  from a b c d e f show ?thesis by (intro conjI)
qed


lemma insertAscending_Fin:
  "insertAscending (Fin x) (map Fin ys) = map Fin (insort x ys)"
  by (induction ys) simp_all

lemma sortAscending_Fin: "sortAscending (map Fin ws) = map Fin (sort ws)"
proof -
  have "foldr insertAscending (map Fin ws) [] = map Fin (foldr insort ws [])"
    by (induction ws) (simp_all add: insertAscending_Fin)
  then show ?thesis by (simp add: sortAscending_def sort_key_def)
qed

lemma widthPct_finite:
  "middle b \<noteq> 0 \<Longrightarrow> widthPct b = Fin ((upper b - lower b) / middle b * 100)"
  by (simp add: widthPct_def js_div_def)

lemma bbWidths_finite:
  assumes "\<forall>b \<in> set bb. middle b \<noteq> 0"
  shows "bbWidths bb = map Fin (map (\<lambda>b. (upper b - lower b) / middle b * 100) bb)"
  using assms by (induction bb) (simp_all add: bbWidths_def widthPct_finite)

lemma js_less_irrefl: "\<not> js_less a a"
  by (cases a) simp_all

lemma squeeze_not_equal:
  "is_in_squeeze_15m bb \<Longrightarrow> lastWidth bb \<noteq> squeezeThreshold bb"
  by (auto simp: is_in_squeeze_15m_def js_less_irrefl split: option.splits)

text \<open>
  C8, amended. For a window with at least one band and no middle band equal to zero,
  the flag is set exactly when the current width, as a percentage of the middle band, is
  strictly below the element at index \<open>length div 4\<close> of the widths of the window in
  ascending order. A current width equal to that element is never flagged. This is the
  flag \<open>analyzeTimeframe\<close> computes from the bands of the closing prices.
\<close>

theorem squeeze_strictly_below:
  "(bb \<noteq> [] \<and> (\<forall>b \<in> set bb. middle b \<noteq> 0) \<longrightarrow>
      lastWidth bb = Some (Fin ((upper (last bb) - lower (last bb)) / middle (last bb) * 100))
      \<and> squeezeThreshold bb =
            Some (Fin (sort (map (\<lambda>b. (upper b - lower b) / middle b * 100) bb)
                         ! (length bb div 4)))
      \<and> (is_in_squeeze_15m bb \<longleftrightarrow>
            (upper (last bb) - lower (last bb)) / middle (last bb) * 100
              < sort (map (\<lambda>b. (upper b - lower b) / middle b * 100) bb) ! (length bb div 4)))
   \<and> (is_in_squeeze_15m bb \<longrightarrow> lastWidth bb \<noteq> squeezeThreshold bb)
   \<and> r_is_in_squeeze_15m (analyze15m lib klines)
        = Some (is_in_squeeze_15m (BollingerBands_calculate lib 20 2 (map k_close klines)))"
proof (intro conjI impI)
  assume a: "bb \<noteq> [] \<and> (\<forall>b \<in> set bb. middle b \<noteq> 0)"
  let ?w = "\<lambda>b. (upper b - lower b) / middle b * 100"
  have w: "bbWidths bb = map Fin (map ?w bb)" using a by (simp add: bbWidths_finite)
  have "lastOf (map Fin (map ?w bb)) = Some (Fin (?w (last bb)))"
    using a by (simp add: lastOf_def last_map)
  then show l: "lastWidth bb = Some (Fin (?w (last bb)))"
    unfolding lastWidth_def w .
  have i: "length bb div 4 < length bb" using a by (cases bb) simp_all
  have s: "sortAscending (bbWidths bb) = map Fin (sort (map ?w bb))"
    unfolding w by (rule sortAscending_Fin)
  have "elemAt (map Fin (sort (map ?w bb))) (length bb div 4)
          = Some (Fin (sort (map ?w bb) ! (length bb div 4)))"
    using i by (simp add: elemAt_def)
  then show t: "squeezeThreshold bb = Some (Fin (sort (map ?w bb) ! (length bb div 4)))"
    unfolding squeezeThreshold_def s Let_def by simp
  show "is_in_squeeze_15m bb \<longleftrightarrow> ?w (last bb) < sort (map ?w bb) ! (length bb div 4)"
    by (simp add: is_in_squeeze_15m_def l t)
next
  assume "is_in_squeeze_15m bb"
  then show "lastWidth bb \<noteq> squeezeThreshold bb" by (rule squeeze_not_equal)
next
  show "r_is_in_squeeze_15m (analyze15m lib klines)
        = Some (is_in_squeeze_15m (BollingerBands_calculate lib 20 2 (map k_close klines)))"
    by (rule analyze15m_flag)
qed

theorem squeeze_strictly_below_witness:
  "squeezed_bands \<noteq> [] \<and> list_all (\<lambda>b. middle b \<noteq> 0) squeezed_bands
   \<and> is_in_squeeze_15m squeezed_bands
   \<and> quartile_bands \<noteq> [] \<and> list_all (\<lambda>b. middle b \<noteq> 0) quartile_bands
   \<and> \<not> is_in_squeeze_15m quartile_bands"
proof -
  have a: "squeezed_bands \<noteq> []" "\<forall>b \<in> set squeezed_bands. middle b \<noteq> 0"
          "list_all (\<lambda>b. middle b \<noteq> 0) squeezed_bands"
    by (simp_all add: squeezed_bands_def)
  have b: "quartile_bands \<noteq> []" "\<forall>b \<in> set quartile_bands. middle b \<noteq> 0"
          "list_all (\<lambda>b. middle b \<noteq> 0) quartile_bands"
    by (simp_all add: quartile_bands_def)
  have m1: "map (\<lambda>b. (upper b - lower b) / middle b * 100) squeezed_bands = [5, 6, 4, 7, 3]"
       and l1: "last squeezed_bands = \<lparr> upper = 203 / 2, middle = 100, lower = 197 / 2 \<rparr>"
       and n1: "length squeezed_bands div 4 = 1"
    by (simp_all add: squeezed_bands_def)
  have m2: "map (\<lambda>b. (upper b - lower b) / middle b * 100) quartile_bands = [5, 6, 4, 7, 9 / 2]"
       and l2: "last quartile_bands = \<lparr> upper = 409 / 4, middle = 100, lower = 391 / 4 \<rparr>"
       and n2: "length quartile_bands div 4 = 1"
    by (simp_all add: quartile_bands_def)
  have s1: "sort [5, 6, 4, 7, 3 :: real] ! 1 = 4" by simp
  have s2: "sort [5, 6, 4, 7, 9 / 2 :: real] ! 1 = 9 / 2" by simp
  have "is_in_squeeze_15m squeezed_bands"
    using squeeze_strictly_below [of squeezed_bands] a(1,2) unfolding m1 l1 n1 s1 by simp
  moreover have "\<not> is_in_squeeze_15m quartile_bands"
    using squeeze_strictly_below [of quartile_bands] b(1,2) unfolding m2 l2 n2 s2 by simp
  ultimately show ?thesis using a b by simp
qed


subsection \<open>The analysis of the 15-minute window\<close>

lemma analyzeTimeframe_15m_throws:
  assumes "host ''high'' = None \<or> host ''low'' = None" and "21 \<le> length klines"
  shows "\<exists>name. analyzeTimeframe lib host klines ''15m'' = Inl (ReferenceError name)"
  using assms by (auto simp: analyzeTimeframe_def Let_def lookup_def split: option.splits)


lemma analyzeTimeframe_15m_name:
  assumes "host ''high'' = None \<or> host ''low'' = None" and "21 \<le> length klines"
  shows "analyzeTimeframe lib host klines ''15m''
           = Inl (ReferenceError (if host ''high'' = None then ''high'' else ''low''))"
  using assms by (auto simp: analyzeTimeframe_def Let_def lookup_def split: option.splits)

lemma analyzeTimeframe_bound:
  assumes "host ''high'' = Some h" "host ''low'' = Some l"
  shows "\<exists>a. analyzeTimeframe lib host klines ''15m'' = Inr a"
  using assms unfolding analyzeTimeframe_def Let_def lookup_def
  by (cases "length klines < 21") simp_all

lemma orNull_throws:
  assumes "\<exists>name. r = Inl (ReferenceError name)"
  shows "orNull r k = None"
  using assms by (auto simp: orNull_def)

lemma hydrate_null:
  assumes "host ''high'' = None \<or> host ''low'' = None"
  shows "hydrateSymbol lib host base fetched15m = None"
proof (cases fetched15m)
  case (Inl e)
  then show ?thesis by (simp add: hydrateSymbol_def orNull_def)
next
  case (Inr ks)
  show ?thesis
  proof (cases "length ks < 50")
    case True
    with Inr show ?thesis by (simp add: hydrateSymbol_def orNull_def)
  next
    case False
    then have "21 \<le> length ks" by simp
    from orNull_throws [OF analyzeTimeframe_15m_throws [OF assms this]]
    have "orNull (analyzeTimeframe lib host ks ''15m'') (\<lambda>a. Some (base, a)) = None" .
    with Inr False show ?thesis by (simp add: hydrateSymbol_def orNull_def)
  qed
qed


lemma orNull_simps:
  "orNull (Inl e) k = None" "orNull (Inr v) k = k v"
  by (simp_all add: orNull_def)

lemma orNull_NoneI:
  assumes "\<And>v. r = Inr v \<Longrightarrow> k v = None"
  shows "orNull r k = None"
  using assms by (cases r) (simp_all add: orNull_simps)

lemma full_null:
  assumes "host ''high'' = None \<or> host ''low'' = None"
  shows "runFullAnalysis evaluateStrategy lib host smb base fetchKlines = None"
  unfolding runFullAnalysis_def
proof (rule orNull_NoneI, rule orNull_NoneI, rule orNull_NoneI, rule orNull_NoneI, rule orNull_NoneI)
  fix k1 k5 k15 k1h k4h
  show "(if length k15 < 50 \<or> length k1h < 21 \<or> length k4h < 51 \<or> length k1 < 21 then None
        else orNull (analyzeTimeframe lib host k1 ''1m'') (\<lambda>analysis1m.
             orNull (analyzeTimeframe lib host k5 ''5m'') (\<lambda>analysis5m.
             orNull (analyzeTimeframe lib host k15 ''15m'') (\<lambda>analysis15m.
             orNull (analyzeTimeframe lib host k1h ''1h'') (\<lambda>analysis1h.
             orNull (analyzeTimeframe lib host k4h ''4h'') (\<lambda>analysis4h.
               Some (evaluateStrategy
                   \<lparr> c_symbol = smb, c_price = base_price base, c_volume = base_volume base,
                     c_indicators = spread (spread analysis15m analysis1h) analysis4h \<rparr>
                   analysis1m analysis5m k1 k15))))))) = None"
  proof (cases "length k15 < 50")
    case True
    then show ?thesis by simp
  next
    case False
    then have "21 \<le> length k15" by simp
    from analyzeTimeframe_15m_throws [OF assms this, of lib]
    obtain name where n: "analyzeTimeframe lib host k15 ''15m'' = Inl (ReferenceError name)" by blast
    have "orNull (analyzeTimeframe lib host k1 ''1m'') (\<lambda>analysis1m.
             orNull (analyzeTimeframe lib host k5 ''5m'') (\<lambda>analysis5m.
             orNull (analyzeTimeframe lib host k15 ''15m'') (K analysis1m analysis5m))) = None"
      for K :: "analysis \<Rightarrow> analysis \<Rightarrow> analysis \<Rightarrow> 'a option"
      by (rule orNull_NoneI, rule orNull_NoneI) (simp only: n orNull_simps)
    then show ?thesis by simp
  qed
qed

text \<open>
  C1. On a host that does not bind both \<open>high\<close> and \<open>low\<close> globally, \<open>analyzeTimeframe\<close>
  throws a ReferenceError for every 15-minute window of at least 21 candles; then
  \<open>runFullAnalysis\<close> and \<open>hydrateSymbol\<close> return null whatever the candles, the symbol
  and the indicator library are.
\<close>

theorem analysis_never_returns:
  assumes "host ''high'' = None \<or> host ''low'' = None"
  shows "(21 \<le> length klines \<longrightarrow>
            analyzeTimeframe lib host klines ''15m''
              = Inl (ReferenceError (if host ''high'' = None then ''high'' else ''low'')))
         \<and> runFullAnalysis evaluateStrategy lib host smb base fetchKlines = None
         \<and> hydrateSymbol lib host base' fetched15m = None"
proof (intro conjI impI)
  assume "21 \<le> length klines"
  with assms show "analyzeTimeframe lib host klines ''15m''
              = Inl (ReferenceError (if host ''high'' = None then ''high'' else ''low''))"
    by (rule analyzeTimeframe_15m_name)
next
  show "runFullAnalysis evaluateStrategy lib host smb base fetchKlines = None"
    using assms by (rule full_null)
next
  show "hydrateSymbol lib host base' fetched15m = None"
    using assms by (rule hydrate_null)
qed

theorem analysis_never_returns_witness:
  "no_globals ''high'' = None
   \<and> 21 \<le> length (replicate 21 still_candle)
   \<and> analyzeTimeframe no_output no_globals (replicate 21 still_candle) ''15m''
       = Inl (ReferenceError ''high'')
   \<and> runFullAnalysis (\<lambda>c a1 a5 k1 k15. c) no_output no_globals ''BTCUSDT''
        \<lparr> base_price = 100, base_volume = 1 \<rparr> (\<lambda>interval. Inr (replicate 60 still_candle)) = None
   \<and> hydrateSymbol no_output no_globals demo_pair (Inr (replicate 60 still_candle)) = None"
proof -
  have g: "no_globals ''high'' = None" by (simp add: no_globals_def)
  then have h: "no_globals ''high'' = None \<or> no_globals ''low'' = None" by simp
  have l: "21 \<le> length (replicate 21 still_candle)" by (simp only: length_replicate order_refl)
  note th = analysis_never_returns [OF h, where lib = no_output
              and klines = "replicate 21 still_candle"
              and evaluateStrategy = "\<lambda>c a1 a5 k1 k15. c" and smb = "''BTCUSDT''"
              and base = "\<lparr> base_price = 100, base_volume = 1 \<rparr>"
              and fetchKlines = "\<lambda>interval. Inr (replicate 60 still_candle)"
              and base' = demo_pair and fetched15m = "Inr (replicate 60 still_candle)"]
  have a: "analyzeTimeframe no_output no_globals (replicate 21 still_candle) ''15m''
       = Inl (ReferenceError ''high'')"
    using th [THEN conjunct1, THEN mp, OF l] by (simp only: g if_True simp_thms)
  show ?thesis
    by (intro conjI) (fact g, fact l, fact a, rule th [THEN conjunct2, THEN conjunct1],
                      rule th [THEN conjunct2, THEN conjunct2])
qed



subsection \<open>Position ids\<close>

lemma distinct_remove_nth:
  "distinct (map f xs) \<Longrightarrow> distinct (map f (take i xs @ drop (Suc i) xs))"
proof (induction xs arbitrary: i)
  case Nil
  then show ?case by simp
next
  case (Cons x xs)
  show ?case
  proof (cases i)
    case 0
    with Cons.prems show ?thesis by simp
  next
    case (Suc j)
    have "f x \<notin> f ` set (take j xs)" "f x \<notin> f ` set (drop (Suc j) xs)"
      using Cons.prems by (auto dest: in_set_takeD in_set_dropD)
    moreover have "distinct (map f (take j xs @ drop (Suc j) xs))"
      using Cons.prems by (intro Cons.IH) simp
    ultimately show ?thesis using Suc by simp
  qed
qed


lemma openPosition_shape:
  "fst (openPosition eng now s p qty sl tp) = s\<lparr> tradeIdCounter := tradeIdCounter s + 1 \<rparr>
   \<or> (\<exists>t. id_trade t = tradeIdCounter s
          \<and> activePositions (fst (openPosition eng now s p qty sl tp)) = activePositions s @ [t]
          \<and> tradeIdCounter (fst (openPosition eng now s p qty sl tp)) = tradeIdCounter s + 1)"
proof (cases "openOrderFails eng s p qty")
  case True
  then show ?thesis by (simp add: openPosition_failed_state)
next
  case False
  then have "\<exists>t. activePositions (fst (openPosition eng now s p qty sl tp)) = activePositions s @ [t]
           \<and> id_trade t = tradeIdCounter s
           \<and> tradeIdCounter (fst (openPosition eng now s p qty sl tp)) = tradeIdCounter s + 1"
    by (auto simp: openOrderFails_def openPosition_def recordOpen_def newTrade_def Let_def
             split: option.splits sum.splits list.splits if_splits)
  then show ?thesis by blast
qed

lemma idsInOrder_append:
  assumes "idsInOrder s" and "id_trade t = tradeIdCounter s"
    and "activePositions s' = activePositions s @ [t]"
    and "tradeIdCounter s' = tradeIdCounter s + 1"
  shows "idsInOrder s'"
proof -
  have "\<forall>u \<in> set (activePositions s). id_trade u < tradeIdCounter s"
    using assms(1) by (simp add: idsInOrder_def list_all_iff)
  then have "id_trade t \<notin> id_trade ` set (activePositions s)"
        and "\<forall>u \<in> set (activePositions s). id_trade u < tradeIdCounter s + 1"
    using assms(2) by auto
  then show ?thesis
    using assms by (simp add: idsInOrder_def list_all_iff)
qed

lemma idsInOrder_open:
  assumes "idsInOrder s"
  shows "idsInOrder (fst (openPosition eng now s p qty sl tp))"
  using openPosition_shape [of eng now s p qty sl tp]
proof
  assume "fst (openPosition eng now s p qty sl tp) = s\<lparr> tradeIdCounter := tradeIdCounter s + 1 \<rparr>"
  moreover have "\<forall>u \<in> set (activePositions s). id_trade u < tradeIdCounter s + 1"
    using assms by (force simp: idsInOrder_def list_all_iff)
  ultimately show ?thesis using assms by (simp add: idsInOrder_def list_all_iff)
next
  assume "\<exists>t. id_trade t = tradeIdCounter s
          \<and> activePositions (fst (openPosition eng now s p qty sl tp)) = activePositions s @ [t]
          \<and> tradeIdCounter (fst (openPosition eng now s p qty sl tp)) = tradeIdCounter s + 1"
  then show ?thesis using idsInOrder_append [OF assms] by blast
qed

lemma idsInOrder_close:
  assumes "idsInOrder s"
  shows "idsInOrder (fst (closePosition eng now s position x))"
proof (cases "findIndex (\<lambda>p. id_trade p = id_trade position) (activePositions s)")
  case None
  then show ?thesis using assms by (simp add: closePosition_def)
next
  case (Some i)
  have "distinct (map id_trade (take i (activePositions s) @ drop (Suc i) (activePositions s)))"
    using assms by (simp only: idsInOrder_def distinct_remove_nth)
  moreover have "\<forall>u \<in> set (take i (activePositions s) @ drop (Suc i) (activePositions s)).
                   id_trade u < tradeIdCounter s"
    using assms by (auto simp: idsInOrder_def list_all_iff dest: in_set_takeD in_set_dropD)
  ultimately show ?thesis
    unfolding closePosition_found [OF Some] by (simp add: idsInOrder_def list_all_iff)
qed

lemma idsInOrder_evaluate:
  assumes "idsInOrder s" and "evaluateSignal eng now s p = Some (s', evs)"
  shows "idsInOrder s'"
  using evaluateSignal_cases [OF assms(2)] idsInOrder_open [OF assms(1)] assms(1) by auto


lemma idsInOrder_update:
  assumes "idsInOrder s" and "i < length (activePositions s)"
    and "id_trade q = id_trade (activePositions s ! i)"
  shows "idsInOrder (s\<lparr> activePositions := (activePositions s)[i := q] \<rparr>)"
proof -
  have m: "map id_trade ((activePositions s)[i := q]) = map id_trade (activePositions s)"
    using assms(2,3) by (simp add: map_update list_update_same_conv)
  have "\<forall>u \<in> set (activePositions s). id_trade u < tradeIdCounter s"
    using assms(1) by (simp add: idsInOrder_def list_all_iff)
  moreover have "id_trade q < tradeIdCounter s"
    using assms calculation by (simp add: nth_mem)
  ultimately have "\<forall>u \<in> set ((activePositions s)[i := q]). id_trade u < tradeIdCounter s"
    using set_update_subset_insert [of "activePositions s" i q] by auto
  then show ?thesis using assms(1) m by (simp add: idsInOrder_def list_all_iff)
qed

lemma idsInOrder_check:
  assumes "idsInOrder s"
  shows "idsInOrder (fst (checkPosition eng now s i))"
proof (cases "i < length (activePositions s) \<and>
              (\<exists>cp. priceCache s (symbol (activePositions s ! i)) = Some cp \<and> cp \<noteq> 0)")
  case False
  then show ?thesis using assms by (auto simp: checkPosition_def Let_def split: option.splits)
next
  case True
  then obtain cp where i: "i < length (activePositions s)"
      and c: "priceCache s (symbol (activePositions s ! i)) = Some cp" "cp \<noteq> 0" by blast
  let ?q = "monitor (settings s) cp (activePositions s ! i)"
  let ?s1 = "s\<lparr> activePositions := (activePositions s)[i := ?q] \<rparr>"
  have s1: "idsInOrder ?s1"
    using assms i by (rule idsInOrder_update) (simp add: monitor_fields)
  show ?thesis
  proof (cases "exitDecision (settings s) cp ?q")
    case None
    then show ?thesis using s1 by (simp add: checkPosition_tick [OF i c] Let_def)
  next
    case (Some d)
    obtain r x where d: "d = (r, x)" by (cases d)
    have "fst (checkPosition eng now s i) = fst (closePosition eng now ?s1 ?q x)"
      by (simp add: checkPosition_tick [OF i c] Let_def Some d split_beta)
    then show ?thesis using idsInOrder_close [OF s1] by simp
  qed
qed


end
